theory Spec2Isabelle
  imports Main "HOL-Library.Sublist"
begin

section \<open>Values exchanged with the remote API\<close>

text \<open>
  Summary ids arrive as JSON numbers or strings; \<open>===\<close> and \<open>!==\<close> on such primitives
  compare type and value, which is structural equality on \<open>ident\<close>.
\<close>

datatype ident = NumId int | StrId string

text \<open>
  An exception raised while a callback runs. \<open>TypeError\<close> is what JavaScript raises for
  \<open>x.toLowerCase()\<close> when \<open>x\<close> is \<open>undefined\<close>, \<open>null\<close> or not a string.
\<close>

datatype js_error = TypeError

text \<open>
  A JSON value, as the data of an error response and as what the share dialog keeps in
  \<open>errorMessage\<close>. A body that is not JSON is the string of its text. The keys of an
  object are distinct. Numbers are kept as integers: only their truthiness is read.
\<close>

datatype json =
    JNull | JBool bool | JNumber int | JString string
  | JArray "json list" | JObject "(string \<times> json) list"

text \<open>The values that \<open>||\<close> and \<open>!\<close> treat as false.\<close>

fun json_falsy :: "json \<Rightarrow> bool" where
  "json_falsy JNull = True"
| "json_falsy (JBool b) = (b = False)"
| "json_falsy (JNumber n) = (n = 0)"
| "json_falsy (JString s) = (s = [])"
| "json_falsy (JArray xs) = False"
| "json_falsy (JObject members) = False"

text \<open>
  A summary object as the list component reads it. A field is \<open>Some s\<close> when the object
  carries it as a string and \<open>None\<close> when it is absent, \<open>null\<close> or of another type:
  in all those cases \<open>field.toLowerCase()\<close> raises a \<open>TypeError\<close>. The other fields of
  a summary (\<open>content\<close>, \<open>createdAt\<close>, \<open>sharedAt\<close>, \<open>sharedBy\<close>, ...) are only rendered.
\<close>

record summary =
  summary_id :: ident
  title :: "string option"
  type :: "string option"
  outputData :: "string option"

datatype view = MySummaries | SharedSummaries

section \<open>String operations\<close>

text \<open>
  \<open>String.prototype.toLowerCase\<close> is a builtin of the language. Every definition that
  calls it takes it as the parameter \<open>toLowerCase\<close>, so what is proved of the filter
  holds for whatever the builtin does, on any text. \<open>ascii_toLowerCase\<close> is what the
  builtin does on ASCII text (the letters A to Z, codes 65 to 90, move to a to z, every
  other character stays); it stands for the builtin at the concrete ASCII inputs below.
\<close>

definition ascii_toLowerCase_char :: "char \<Rightarrow> char" where
  "ascii_toLowerCase_char c =
     (let n = (of_char c :: nat) in if 65 \<le> n \<and> n \<le> 90 then char_of (n + 32) else c)"

definition ascii_toLowerCase :: "string \<Rightarrow> string" where
  "ascii_toLowerCase s = map ascii_toLowerCase_char s"

text \<open>
  \<open>s.includes(q)\<close>: does \<open>q\<close> occur in \<open>s\<close> at some position? The search tries every
  start position from the left.
\<close>

fun str_includes :: "string \<Rightarrow> string \<Rightarrow> bool" where
  "str_includes [] q = (q = [])"
| "str_includes (c # cs) q = (prefix q (c # cs) \<or> str_includes cs q)"

text \<open>A method call \<open>field.toLowerCase()\<close> on a field that may not be a string.\<close>

definition call_toLowerCase :: "(string \<Rightarrow> string) \<Rightarrow> string option \<Rightarrow> js_error + string" where
  "call_toLowerCase toLowerCase v =
     (case v of None \<Rightarrow> Inl TypeError | Some s \<Rightarrow> Inr (toLowerCase s))"

section \<open>State of the SummariesList component\<close>

text \<open>
  One field per \<open>useState\<close> cell of the component, plus \<open>selectedSummary\<close>, the prop that
  the Dashboard owns and hands down together with its setter. \<open>error\<close> and
  \<open>errorMessage\<close> are \<open>None\<close> for \<open>null\<close>/\<open>undefined\<close>; \<open>errorMessage\<close> holds whatever
  value the share handler stores.
\<close>

record list_state =
  summaries :: "summary list"
  searchQuery :: string
  loading :: bool
  error :: "string option"
  deleting :: bool
  currentView :: view
  sharingSummary :: "summary option"
  recipient :: string
  sharing :: bool
  errorMessage :: "json option"
  sharedSummaries :: "summary list"
  deleteDialogOpen :: bool
  summaryToDelete :: "ident option"
  activeTab :: string
  selectedSummary :: "summary option"

text \<open>The state right after mounting (the initial values of the \<open>useState\<close> cells).\<close>

definition initial_state :: list_state where
  "initial_state =
     \<lparr>summaries = [], searchQuery = [], loading = True, error = None, deleting = False,
      currentView = MySummaries, sharingSummary = None, recipient = [], sharing = False,
      errorMessage = Some (JString []), sharedSummaries = [], deleteDialogOpen = False,
      summaryToDelete = None, activeTab = ''all'', selectedSummary = None\<rparr>"

section \<open>Filtering (filteredSummaries, filteredSharedSummaries)\<close>

text \<open>
  \<open>const matchesTab = activeTab === 'all' || summary.type.toLowerCase() === activeTab\<close>:
  the type is read only when the tab is not \<open>all\<close>.
\<close>

definition matchesTab :: "(string \<Rightarrow> string) \<Rightarrow> string \<Rightarrow> summary \<Rightarrow> js_error + bool" where
  "matchesTab toLowerCase tab s =
     (if tab = ''all'' then Inr True
      else (case call_toLowerCase toLowerCase (type s) of
              Inl e \<Rightarrow> Inl e
            | Inr t \<Rightarrow> Inr (t = tab)))"

text \<open>
  \<open>const matchesSearch = summary.title.toLowerCase().includes(q.toLowerCase()) ||
  summary.outputData.toLowerCase().includes(q.toLowerCase())\<close>: \<open>outputData\<close> is read
  only when the title does not contain the query.
\<close>

definition matchesSearch :: "(string \<Rightarrow> string) \<Rightarrow> string \<Rightarrow> summary \<Rightarrow> js_error + bool" where
  "matchesSearch toLowerCase q s =
     (case call_toLowerCase toLowerCase (title s) of
        Inl e \<Rightarrow> Inl e
      | Inr t \<Rightarrow>
          if str_includes t (toLowerCase q) then Inr True
          else (case call_toLowerCase toLowerCase (outputData s) of
                  Inl e \<Rightarrow> Inl e
                | Inr d \<Rightarrow> Inr (str_includes d (toLowerCase q))))"

text \<open>The filter callback: both constants are computed, then \<open>matchesTab && matchesSearch\<close>.\<close>

definition filterCallback ::
  "(string \<Rightarrow> string) \<Rightarrow> string \<Rightarrow> string \<Rightarrow> summary \<Rightarrow> js_error + bool" where
  "filterCallback toLowerCase tab q s =
     (case matchesTab toLowerCase tab s of
        Inl e \<Rightarrow> Inl e
      | Inr mt \<Rightarrow>
          (case matchesSearch toLowerCase q s of
             Inl e \<Rightarrow> Inl e
           | Inr ms \<Rightarrow> Inr (mt \<and> ms)))"

text \<open>
  \<open>Array.prototype.filter\<close> with a callback that may raise: elements are visited from the
  left, and the first exception aborts the whole call.
\<close>

fun array_filter :: "('a \<Rightarrow> js_error + bool) \<Rightarrow> 'a list \<Rightarrow> js_error + 'a list" where
  "array_filter f [] = Inr []"
| "array_filter f (x # xs) =
     (case f x of
        Inl e \<Rightarrow> Inl e
      | Inr b \<Rightarrow>
          (case array_filter f xs of
             Inl e \<Rightarrow> Inl e
           | Inr ys \<Rightarrow> Inr (if b then x # ys else ys)))"

definition filteredSummaries :: "(string \<Rightarrow> string) \<Rightarrow> list_state \<Rightarrow> js_error + summary list" where
  "filteredSummaries toLowerCase s =
     array_filter (filterCallback toLowerCase (activeTab s) (searchQuery s)) (summaries s)"

definition filteredSharedSummaries ::
  "(string \<Rightarrow> string) \<Rightarrow> list_state \<Rightarrow> js_error + summary list" where
  "filteredSharedSummaries toLowerCase s =
     array_filter (filterCallback toLowerCase (activeTab s) (searchQuery s)) (sharedSummaries s)"

text \<open>An item whose three filtered fields are all strings.\<close>

definition string_fields :: "summary \<Rightarrow> bool" where
  "string_fields s = (title s \<noteq> None \<and> type s \<noteq> None \<and> outputData s \<noteq> None)"

text \<open>
  An item of the data model of the specification: title and output text are strings and
  the type is one of the three categories.
\<close>

definition in_data_model :: "summary \<Rightarrow> bool" where
  "in_data_model s =
     (title s \<noteq> None \<and> outputData s \<noteq> None \<and>
      (type s = Some ''code'' \<or> type s = Some ''documentation'' \<or> type s = Some ''research''))"

text \<open>What is used of the builtin on the three category names: they are lowercase already.\<close>

definition fixes_categories :: "(string \<Rightarrow> string) \<Rightarrow> bool" where
  "fixes_categories toLowerCase =
     (toLowerCase ''code'' = ''code'' \<and>
      toLowerCase ''documentation'' = ''documentation'' \<and>
      toLowerCase ''research'' = ''research'')"

text \<open>
  The visibility predicate in the words of the specification: the item's type equals
  the category unless the category is \<open>all\<close>, and the lowercased query is a contiguous
  part of the lowercased title or of the lowercased output text. An item lacking one of
  the fields is never called displayed.
\<close>

definition displayed :: "(string \<Rightarrow> string) \<Rightarrow> string \<Rightarrow> string \<Rightarrow> summary \<Rightarrow> bool" where
  "displayed toLowerCase tab q s =
     (case (title s, type s, outputData s) of
        (Some t, Some ty, Some d) \<Rightarrow>
          (tab = ''all'' \<or> ty = tab) \<and>
          (sublist (toLowerCase q) (toLowerCase t) \<or> sublist (toLowerCase q) (toLowerCase d))
      | _ \<Rightarrow> False)"

text \<open>
  The same predicate with the category compared as the code compares it, after
  lowercasing the type: what the callback returns on any item with string fields.
\<close>

definition displayed_lowercased_type ::
  "(string \<Rightarrow> string) \<Rightarrow> string \<Rightarrow> string \<Rightarrow> summary \<Rightarrow> bool" where
  "displayed_lowercased_type toLowerCase tab q s =
     (case (title s, type s, outputData s) of
        (Some t, Some ty, Some d) \<Rightarrow>
          (tab = ''all'' \<or> toLowerCase ty = tab) \<and>
          (sublist (toLowerCase q) (toLowerCase t) \<or> sublist (toLowerCase q) (toLowerCase d))
      | _ \<Rightarrow> False)"

text \<open>
  When does the callback raise on an item? The title is missing; or the type is missing
  and the tab is not \<open>all\<close>; or the output text is missing and the lowercased title does
  not contain the lowercased query.
\<close>

definition callback_raises :: "(string \<Rightarrow> string) \<Rightarrow> string \<Rightarrow> string \<Rightarrow> summary \<Rightarrow> bool" where
  "callback_raises toLowerCase tab q s =
     (case title s of
        None \<Rightarrow> True
      | Some t \<Rightarrow>
          (tab \<noteq> ''all'' \<and> type s = None) \<or>
          (outputData s = None \<and> \<not> sublist (toLowerCase q) (toLowerCase t)))"

text \<open>
  The list of scenario 6 of the specification; the scenario names id, title and type of
  its two items and leaves their output texts open.
\<close>

definition scenario_list :: "string option \<Rightarrow> string option \<Rightarrow> summary list" where
  "scenario_list d1 d2 =
     [\<lparr>summary_id = NumId 1, title = Some ''A'', type = Some ''code'', outputData = d1\<rparr>,
      \<lparr>summary_id = NumId 2, title = Some ''B'', type = Some ''research'', outputData = d2\<rparr>]"

section \<open>The resource gateway (RequestService.js)\<close>

text \<open>
  An axios rejection: \<open>error.response\<close> is present when the server answered (then it has
  a status code and possibly data) and absent on a network failure or timeout.
\<close>

record http_error_response =
  http_status :: nat
  http_data :: "json option"

record axios_error =
  response :: "http_error_response option"
  message :: string

datatype 'a axios_outcome = AxiosResolved 'a | AxiosRejected axios_error

text \<open>
  Every method ends in \<open>throw error.response?.data || '<fallback>'\<close>: the data of the
  response when it is there and truthy, else the method's own message. The status code
  is not consulted.
\<close>

definition rethrow :: "string \<Rightarrow> axios_error \<Rightarrow> json" where
  "rethrow fallback e =
     (case response e of
        None \<Rightarrow> JString fallback
      | Some r \<Rightarrow>
          (case http_data r of
             None \<Rightarrow> JString fallback
           | Some d \<Rightarrow> if json_falsy d then JString fallback else d))"

datatype gateway_method =
    CreateUser | VerifyUser | GetUserSummaries | CreateUserSummary | UserSummaryUpload
  | DeleteUserSummary | RegenerateUserSummary | ShareSummary | GetUserSharedSummaries
  | GetUserSummary | GetInputFile

fun fallback_message :: "gateway_method \<Rightarrow> string" where
  "fallback_message CreateUser = ''Error creating user''"
| "fallback_message VerifyUser = ''Error verifying user''"
| "fallback_message GetUserSummaries = ''Error fetching summaries''"
| "fallback_message CreateUserSummary = ''Error creating user summary''"
| "fallback_message UserSummaryUpload = ''Error creating user summary''"
| "fallback_message DeleteUserSummary = ''Error deleting summary''"
| "fallback_message RegenerateUserSummary = ''Error creating user summary''"
| "fallback_message ShareSummary = ''Error sharing summary''"
| "fallback_message GetUserSharedSummaries = ''Error fetching shared summaries''"
| "fallback_message GetUserSummary = ''Error fetching summary for user''"
| "fallback_message GetInputFile = ''Error fetching or downloading file''"

text \<open>
  A gateway method, given how its single axios call settled: the resolved value is
  returned, a rejection is rethrown through \<open>rethrow\<close>.
\<close>

definition gateway :: "gateway_method \<Rightarrow> 'a axios_outcome \<Rightarrow> json + 'a" where
  "gateway m out =
     (case out of
        AxiosResolved d \<Rightarrow> Inr d
      | AxiosRejected e \<Rightarrow> Inl (rethrow (fallback_message m) e))"

text \<open>
  The result field of a list response: an array of summaries, a falsy value
  (\<open>undefined\<close>, \<open>null\<close>, ...) or some other value that is not an array.
\<close>

datatype payload = Items "summary list" | Falsy | NotArray

record list_response =
  status :: "string option"
  result :: payload

text \<open>\<open>Array.isArray\<close> on the result field of a response.\<close>

definition isArray :: "payload \<Rightarrow> bool" where
  "isArray p = (case p of Items xs \<Rightarrow> True | _ \<Rightarrow> False)"

text \<open>
  The response to the request for one summary; \<open>item_result\<close> is its \<open>result\<close> field,
  \<open>None\<close> when the field is absent.
\<close>

record item_response =
  item_result :: "summary option"

text \<open>The list methods resolve to \<open>response.data\<close>; \<open>None\<close> is a response without data.\<close>

definition getUserSummaries ::
  "list_response option axios_outcome \<Rightarrow> json + list_response option" where
  "getUserSummaries out = gateway GetUserSummaries out"

definition getUserSharedSummaries ::
  "list_response option axios_outcome \<Rightarrow> json + list_response option" where
  "getUserSharedSummaries out = gateway GetUserSharedSummaries out"

definition getUserSummary ::
  "item_response option axios_outcome \<Rightarrow> json + item_response option" where
  "getUserSummary out = gateway GetUserSummary out"

definition deleteUserSummary :: "unit axios_outcome \<Rightarrow> json + unit" where
  "deleteUserSummary out = gateway DeleteUserSummary out"

definition shareSummary :: "unit axios_outcome \<Rightarrow> json + unit" where
  "shareSummary out = gateway ShareSummary out"

section \<open>The session (AuthProvider in App.js)\<close>

record user =
  user_id :: ident

text \<open>The decoded token; \<open>None\<close> is an \<open>exp\<close> for which \<open>exp * 1000\<close> is not a number.\<close>

record jwt =
  jwt_exp :: "int option"

record auth_state =
  localStorage :: "string \<rightharpoonup> string"
  isAuthenticated :: bool
  userData :: "user option"
  auth_summaries :: payload
  auth_loading :: bool
  auth_error :: "string option"

definition logout :: "auth_state \<Rightarrow> auth_state" where
  "logout s =
     s\<lparr>localStorage := (localStorage s)(''auth_token'' := None, ''user_data'' := None),
       isAuthenticated := False,
       userData := None,
       auth_summaries := Items [],
       auth_error := None\<rparr>"

datatype verify_failure = NoTokenOrUserData | InvalidToken | TokenExpired | ProfileSyntaxError

text \<open>\<open>!value\<close> for what \<open>localStorage.getItem\<close> returns: \<open>null\<close> or the empty string.\<close>

definition falsy :: "string option \<Rightarrow> bool" where
  "falsy v = (v = None \<or> v = Some [])"

text \<open>\<open>decodedToken.exp * 1000 < Date.now()\<close>; a comparison with NaN is false.\<close>

definition expired :: "jwt \<Rightarrow> int \<Rightarrow> bool" where
  "expired decodedToken now =
     (case jwt_exp decodedToken of None \<Rightarrow> False | Some e \<Rightarrow> e * 1000 < now)"

text \<open>
  The checks of \<open>verifyToken\<close> up to \<open>JSON.parse\<close>, in the order of the source. The
  library function \<open>jwtDecode\<close> and \<open>JSON.parse\<close> are parameters; \<open>None\<close> is their
  exception. \<open>now\<close> is \<open>Date.now()\<close> in milliseconds. Past the first check both stored
  values are present, so \<open>the\<close> reads a value that is there.
\<close>

definition verifyToken_checks ::
  "(string \<Rightarrow> jwt option) \<Rightarrow> (string \<Rightarrow> user option) \<Rightarrow> int \<Rightarrow> auth_state
     \<Rightarrow> verify_failure + user" where
  "verifyToken_checks jwtDecode JSON_parse now s =
     (let token = localStorage s ''auth_token'';
          storedUserData = localStorage s ''user_data''
      in if falsy token \<or> falsy storedUserData then Inl NoTokenOrUserData
         else (case jwtDecode (the token) of
                 None \<Rightarrow> Inl InvalidToken
               | Some decodedToken \<Rightarrow>
                   if expired decodedToken now then Inl TokenExpired
                   else (case JSON_parse (the storedUserData) of
                           None \<Rightarrow> Inl ProfileSyntaxError
                         | Some parsedUserData \<Rightarrow> Inr parsedUserData)))"

text \<open>
  The inner \<open>try\<close> of \<open>verifyToken\<close>: the prefetch of the owned summaries. A rejection
  empties the list, a response that is absent or not OK only logs.
\<close>

definition prefetch_summaries :: "json + list_response option \<Rightarrow> auth_state \<Rightarrow> auth_state" where
  "prefetch_summaries r s =
     (case r of
        Inl b \<Rightarrow> s\<lparr>auth_summaries := Items []\<rparr>
      | Inr None \<Rightarrow> s
      | Inr (Some summariesResponse) \<Rightarrow>
          if status summariesResponse = Some ''OK''
          then s\<lparr>auth_summaries :=
                   (if result summariesResponse = Falsy then Items []
                    else result summariesResponse)\<rparr>
          else s)"

definition verifyToken ::
  "(string \<Rightarrow> jwt option) \<Rightarrow> (string \<Rightarrow> user option) \<Rightarrow> int
     \<Rightarrow> (ident \<Rightarrow> list_response option axios_outcome) \<Rightarrow> auth_state \<Rightarrow> auth_state" where
  "verifyToken jwtDecode JSON_parse now net s =
     (case verifyToken_checks jwtDecode JSON_parse now s of
        Inl failure \<Rightarrow> (logout s)\<lparr>auth_loading := False\<rparr>
      | Inr parsedUserData \<Rightarrow>
          (prefetch_summaries (getUserSummaries (net (user_id parsedUserData)))
             (s\<lparr>userData := Some parsedUserData, isAuthenticated := True\<rparr>))
          \<lparr>auth_loading := False\<rparr>)"

text \<open>
  The failure conditions as the specification lists them, with the comparison that the
  code makes (expiry strictly before the current time) and with the cached profile that
  does not parse: no token or no profile; or a token that does not decode; or an expiry
  in seconds that, times 1000, lies before \<open>now\<close>; or a profile that is not JSON.
\<close>

definition startup_fails ::
  "(string \<Rightarrow> jwt option) \<Rightarrow> (string \<Rightarrow> user option) \<Rightarrow> int \<Rightarrow> auth_state \<Rightarrow> bool" where
  "startup_fails jwtDecode JSON_parse now s =
     (case (localStorage s ''auth_token'', localStorage s ''user_data'') of
        (Some token, Some storedUserData) \<Rightarrow>
          token = [] \<or> storedUserData = [] \<or>
          (case jwtDecode token of
             None \<Rightarrow> True
           | Some d \<Rightarrow>
               (case jwt_exp d of None \<Rightarrow> False | Some e \<Rightarrow> e * 1000 < now) \<or>
               JSON_parse storedUserData = None)
      | _ \<Rightarrow> True)"

text \<open>The same with the comparison of the claim: expiry at or before the current time.\<close>

definition startup_fails_at_or_before ::
  "(string \<Rightarrow> jwt option) \<Rightarrow> (string \<Rightarrow> user option) \<Rightarrow> int \<Rightarrow> auth_state \<Rightarrow> bool" where
  "startup_fails_at_or_before jwtDecode JSON_parse now s =
     (case (localStorage s ''auth_token'', localStorage s ''user_data'') of
        (Some token, Some storedUserData) \<Rightarrow>
          token = [] \<or> storedUserData = [] \<or>
          (case jwtDecode token of
             None \<Rightarrow> True
           | Some d \<Rightarrow>
               (case jwt_exp d of None \<Rightarrow> False | Some e \<Rightarrow> e * 1000 \<le> now))
      | _ \<Rightarrow> True)"

section \<open>Loading the lists (fetchSummaries, fetchSharedSummaries)\<close>

text \<open>What a \<open>catch\<close> of the component can receive.\<close>

datatype caught = Rejected json | Raised js_error | NewError string

text \<open>
  The awaited expression \<open>getUserSummaries(userData.id)\<close>: reading \<open>id\<close> of a null
  \<open>userData\<close> raises before any request is made.
\<close>

definition await_getUserSummaries ::
  "user option \<Rightarrow> (ident \<Rightarrow> list_response option axios_outcome)
     \<Rightarrow> caught + list_response option" where
  "await_getUserSummaries u net =
     (case u of
        None \<Rightarrow> Inl (Raised TypeError)
      | Some usr \<Rightarrow>
          (case getUserSummaries (net (user_id usr)) of
             Inl b \<Rightarrow> Inl (Rejected b)
           | Inr d \<Rightarrow> Inr d))"

definition await_getUserSharedSummaries ::
  "user option \<Rightarrow> (ident \<Rightarrow> list_response option axios_outcome)
     \<Rightarrow> caught + list_response option" where
  "await_getUserSharedSummaries u net =
     (case u of
        None \<Rightarrow> Inl (Raised TypeError)
      | Some usr \<Rightarrow>
          (case getUserSharedSummaries (net (user_id usr)) of
             Inl b \<Rightarrow> Inl (Rejected b)
           | Inr d \<Rightarrow> Inr d))"

text \<open>
  The rest of the \<open>try\<close> block after the \<open>await\<close>: reading \<open>response.status\<close> (a
  TypeError when there is no response object), the status check, then the
  \<open>Array.isArray\<close> check. \<open>what\<close> is the word that differs between the messages of the
  two functions.
\<close>

definition check_response :: "string \<Rightarrow> caught + list_response option \<Rightarrow> caught + summary list" where
  "check_response what r =
     (case r of
        Inl e \<Rightarrow> Inl e
      | Inr None \<Rightarrow> Inl (Raised TypeError)
      | Inr (Some resp) \<Rightarrow>
          if status resp \<noteq> Some ''OK'' then Inl (NewError (''Failed to fetch '' @ what))
          else (case result resp of
                  Items data \<Rightarrow> Inr data
                | _ \<Rightarrow> Inl (NewError ''Invalid response format: result is not an array'')))"

text \<open>The synchronous start of either fetch, up to the \<open>await\<close>.\<close>

definition fetch_begin :: "list_state \<Rightarrow> list_state" where
  "fetch_begin s = s\<lparr>loading := True\<rparr>"

text \<open>
  The continuation of \<open>fetchSummaries\<close> once its request has settled, applied to the
  state of that moment: \<open>setSummaries(data)\<close> or the \<open>catch\<close>, then the \<open>finally\<close>.
\<close>

definition fetchSummaries_settle :: "caught + list_response option \<Rightarrow> list_state \<Rightarrow> list_state" where
  "fetchSummaries_settle r s =
     (case check_response ''summaries'' r of
        Inr data \<Rightarrow> s\<lparr>summaries := data\<rparr>
      | Inl err \<Rightarrow> s\<lparr>error := Some ''Failed to load summaries. Please try again later.''\<rparr>)
     \<lparr>loading := False\<rparr>"

definition fetchSharedSummaries_settle ::
  "caught + list_response option \<Rightarrow> list_state \<Rightarrow> list_state" where
  "fetchSharedSummaries_settle r s =
     (case check_response ''shared summaries'' r of
        Inr data \<Rightarrow> s\<lparr>sharedSummaries := data\<rparr>
      | Inl err \<Rightarrow>
          s\<lparr>error := Some ''Failed to load shared summaries. Please try again later.''\<rparr>)
     \<lparr>loading := False\<rparr>"

text \<open>A call that runs to its end with nothing in between.\<close>

definition fetchSummaries ::
  "user option \<Rightarrow> (ident \<Rightarrow> list_response option axios_outcome) \<Rightarrow> list_state \<Rightarrow> list_state" where
  "fetchSummaries u net s = fetchSummaries_settle (await_getUserSummaries u net) (fetch_begin s)"

definition fetchSharedSummaries ::
  "user option \<Rightarrow> (ident \<Rightarrow> list_response option axios_outcome) \<Rightarrow> list_state \<Rightarrow> list_state" where
  "fetchSharedSummaries u net s =
     fetchSharedSummaries_settle (await_getUserSharedSummaries u net) (fetch_begin s)"

text \<open>
  The effect hook on \<open>[currentView, userData]\<close>: nothing without a user, else the fetch
  of the current view. \<open>net_owned\<close> and \<open>net_shared\<close> are the two endpoints.
\<close>

definition loadActiveList ::
  "user option \<Rightarrow> (ident \<Rightarrow> list_response option axios_outcome)
     \<Rightarrow> (ident \<Rightarrow> list_response option axios_outcome) \<Rightarrow> list_state \<Rightarrow> list_state" where
  "loadActiveList u net_owned net_shared s =
     (if u = None then s
      else if currentView s = MySummaries then fetchSummaries u net_owned s
      else fetchSharedSummaries u net_shared s)"

text \<open>The list of the current view (\<open>items\<close> in the specification).\<close>

definition items :: "list_state \<Rightarrow> summary list" where
  "items s = (if currentView s = MySummaries then summaries s else sharedSummaries s)"

text \<open>The list of one kind: the owned list or the shared list.\<close>

definition list_of :: "view \<Rightarrow> list_state \<Rightarrow> summary list" where
  "list_of k s = (case k of MySummaries \<Rightarrow> summaries s | SharedSummaries \<Rightarrow> sharedSummaries s)"

text \<open>
  Overlapping calls of the two fetch functions: a call for a list kind is issued (its
  synchronous start runs), and later its request settles (the continuation of the
  function of that kind runs). A schedule is the order in which these happen; each
  step acts on the state the previous one left.
\<close>

datatype fetch_event = Issued view | Settled view "caught + list_response option"

fun fetch_step :: "fetch_event \<Rightarrow> list_state \<Rightarrow> list_state" where
  "fetch_step (Issued k) s = fetch_begin s"
| "fetch_step (Settled MySummaries r) s = fetchSummaries_settle r s"
| "fetch_step (Settled SharedSummaries r) s = fetchSharedSummaries_settle r s"

fun run_schedule :: "fetch_event list \<Rightarrow> list_state \<Rightarrow> list_state" where
  "run_schedule [] s = s"
| "run_schedule (ev # evs) s = run_schedule evs (fetch_step ev s)"

text \<open>A well-formed success response carrying the given array.\<close>

definition ok_response :: "summary list \<Rightarrow> caught + list_response option" where
  "ok_response xs = Inr (Some \<lparr>status = Some ''OK'', result = Items xs\<rparr>)"

section \<open>Deleting (handleDeleteSummary)\<close>

definition handleDeleteSummary_begin :: "list_state \<Rightarrow> list_state" where
  "handleDeleteSummary_begin s = s\<lparr>deleting := True\<rparr>"

text \<open>
  After \<open>await deleteUserSummary(summaryId)\<close>: the functional update
  \<open>setSummaries(prev => prev.filter(summary => summary.id !== summaryId))\<close> on success,
  the \<open>catch\<close> on rejection, then the \<open>finally\<close>.
\<close>

definition handleDeleteSummary_settle :: "ident \<Rightarrow> json + unit \<Rightarrow> list_state \<Rightarrow> list_state" where
  "handleDeleteSummary_settle summaryId r s =
     (case r of
        Inr ok \<Rightarrow> s\<lparr>summaries := filter (\<lambda>summary. summary_id summary \<noteq> summaryId) (summaries s)\<rparr>
      | Inl err \<Rightarrow> s\<lparr>error := Some ''Failed to delete summary. Please try again later.''\<rparr>)
     \<lparr>deleting := False\<rparr>"

definition handleDeleteSummary ::
  "(ident \<Rightarrow> unit axios_outcome) \<Rightarrow> ident \<Rightarrow> list_state \<Rightarrow> list_state" where
  "handleDeleteSummary net summaryId s =
     handleDeleteSummary_settle summaryId (deleteUserSummary (net summaryId))
       (handleDeleteSummary_begin s)"

section \<open>Sharing (handleSendShare)\<close>

text \<open>What the handler does to the outside: an alert box, or a call of the share gateway.\<close>

datatype effect = Alert string | ShareRequest ident string

text \<open>
  \<open>err.detail\<close> in the \<open>catch\<close>: the \<open>detail\<close> field when what was caught is a JSON
  object that has one, whatever its value; \<open>undefined\<close> for a string, any other JSON
  value, or an exception object.
\<close>

definition detail :: "caught \<Rightarrow> json option" where
  "detail err = (case err of Rejected (JObject members) \<Rightarrow> map_of members ''detail'' | _ \<Rightarrow> None)"

text \<open>
  \<open>handleSendShare\<close> with the share endpoint as a parameter. It returns the effects in
  the order they happen and the state it leaves. With no summary in the dialog,
  \<open>sharingSummary.id\<close> raises inside the \<open>try\<close> before the request is built.
\<close>

definition handleSendShare ::
  "(ident \<Rightarrow> string \<Rightarrow> unit axios_outcome) \<Rightarrow> list_state \<Rightarrow> effect list \<times> list_state" where
  "handleSendShare net s =
     (if recipient s = [] then ([Alert ''Please enter a recipient email or username.''], s)
      else (case sharingSummary s of
              None \<Rightarrow> ([], s\<lparr>errorMessage := detail (Raised TypeError), sharing := False\<rparr>)
            | Some sm \<Rightarrow>
                (case shareSummary (net (summary_id sm) (recipient s)) of
                   Inr ok \<Rightarrow>
                     ([ShareRequest (summary_id sm) (recipient s),
                       Alert (''Summary shared successfully with '' @ recipient s)],
                      s\<lparr>sharingSummary := None, recipient := [], sharing := False\<rparr>)
                 | Inl b \<Rightarrow>
                     ([ShareRequest (summary_id sm) (recipient s)],
                      s\<lparr>errorMessage := detail (Rejected b), sharing := False\<rparr>))))"

section \<open>Refreshing the selected summary (handleSummaryRegenerate)\<close>

text \<open>
  \<open>setSelectedSummary(regeneratedSummary.result)\<close> after the request for the summary has
  resolved; a rejection, or a response without data (reading \<open>result\<close> raises), is
  logged and nothing else happens.
\<close>

definition handleSummaryRegenerate ::
  "(ident \<Rightarrow> item_response option axios_outcome) \<Rightarrow> summary \<Rightarrow> list_state \<Rightarrow> list_state" where
  "handleSummaryRegenerate net summary s =
     (case getUserSummary (net (summary_id summary)) of
        Inl err \<Rightarrow> s
      | Inr None \<Rightarrow> s
      | Inr (Some regeneratedSummary) \<Rightarrow> s\<lparr>selectedSummary := item_result regeneratedSummary\<rparr>)"

section \<open>The list component inside the session provider\<close>

record app_state =
  session :: auth_state
  collection :: list_state

text \<open>
  The handlers of the list component as they run in the application. The component
  takes \<open>userData\<close> from the session context and nothing else; what its handlers can
  write are the cells of the component and the selected summary.
\<close>

definition app_fetchSummaries ::
  "(ident \<Rightarrow> list_response option axios_outcome) \<Rightarrow> app_state \<Rightarrow> app_state" where
  "app_fetchSummaries net a =
     a\<lparr>collection := fetchSummaries (userData (session a)) net (collection a)\<rparr>"

definition app_fetchSharedSummaries ::
  "(ident \<Rightarrow> list_response option axios_outcome) \<Rightarrow> app_state \<Rightarrow> app_state" where
  "app_fetchSharedSummaries net a =
     a\<lparr>collection := fetchSharedSummaries (userData (session a)) net (collection a)\<rparr>"

definition app_handleDeleteSummary ::
  "(ident \<Rightarrow> unit axios_outcome) \<Rightarrow> ident \<Rightarrow> app_state \<Rightarrow> app_state" where
  "app_handleDeleteSummary net summaryId a =
     a\<lparr>collection := handleDeleteSummary net summaryId (collection a)\<rparr>"

definition app_handleSendShare ::
  "(ident \<Rightarrow> string \<Rightarrow> unit axios_outcome) \<Rightarrow> app_state \<Rightarrow> app_state" where
  "app_handleSendShare net a = a\<lparr>collection := snd (handleSendShare net (collection a))\<rparr>"

definition app_handleSummaryRegenerate ::
  "(ident \<Rightarrow> item_response option axios_outcome) \<Rightarrow> summary \<Rightarrow> app_state \<Rightarrow> app_state" where
  "app_handleSummaryRegenerate net summary a =
     a\<lparr>collection := handleSummaryRegenerate net summary (collection a)\<rparr>"

section \<open>Concrete inputs\<close>

text \<open>The three summaries of the test \<open>combines search and tab filtering\<close>.\<close>

definition react_code :: summary where
  "react_code = \<lparr>summary_id = NumId 1, title = Some ''React Code'', type = Some ''code'',
                  outputData = Some ''React content''\<rparr>"

definition react_research :: summary where
  "react_research = \<lparr>summary_id = NumId 2, title = Some ''React Research'',
                      type = Some ''research'', outputData = Some ''React research''\<rparr>"

definition python_code :: summary where
  "python_code = \<lparr>summary_id = NumId 3, title = Some ''Python Code'', type = Some ''code'',
                   outputData = Some ''Python content''\<rparr>"

text \<open>The list component showing these three, after loading.\<close>

definition loaded_state :: list_state where
  "loaded_state = initial_state\<lparr>summaries := [react_code, react_research, python_code],
                                 loading := False\<rparr>"

text \<open>A logged-in user and endpoints with fixed answers.\<close>

definition alice :: user where
  "alice = \<lparr>user_id = NumId 7\<rparr>"

definition net_ok :: "summary list \<Rightarrow> ident \<Rightarrow> list_response option axios_outcome" where
  "net_ok xs uid = AxiosResolved (Some \<lparr>status = Some ''OK'', result = Items xs\<rparr>)"

definition net_not_ok :: "ident \<Rightarrow> list_response option axios_outcome" where
  "net_not_ok uid = AxiosResolved (Some \<lparr>status = Some ''ERROR'', result = Items [react_code]\<rparr>)"

definition net_not_array :: "ident \<Rightarrow> list_response option axios_outcome" where
  "net_not_array uid = AxiosResolved (Some \<lparr>status = Some ''OK'', result = NotArray\<rparr>)"

definition delete_ok :: "ident \<Rightarrow> unit axios_outcome" where
  "delete_ok i = AxiosResolved ()"

definition share_ok :: "ident \<Rightarrow> string \<Rightarrow> unit axios_outcome" where
  "share_ok i r = AxiosResolved ()"

text \<open>
  Error answers: a 401 and a 404 with the same JSON body, a 401 without data, a 401 with
  empty text, a 404 whose body is text, and no answer at all.
\<close>

definition unauthorized_401 :: axios_error where
  "unauthorized_401 =
     \<lparr>response = Some \<lparr>http_status = 401,
                        http_data = Some (JObject [(''detail'', JString ''Request refused'')])\<rparr>,
      message = ''Request failed with status code 401''\<rparr>"

definition not_found_404 :: axios_error where
  "not_found_404 =
     \<lparr>response = Some \<lparr>http_status = 404,
                        http_data = Some (JObject [(''detail'', JString ''Request refused'')])\<rparr>,
      message = ''Request failed with status code 404''\<rparr>"

definition unauthorized_401_no_body :: axios_error where
  "unauthorized_401_no_body =
     \<lparr>response = Some \<lparr>http_status = 401, http_data = None\<rparr>,
      message = ''Request failed with status code 401''\<rparr>"

definition unauthorized_401_empty_text :: axios_error where
  "unauthorized_401_empty_text =
     \<lparr>response = Some \<lparr>http_status = 401, http_data = Some (JString [])\<rparr>,
      message = ''Request failed with status code 401''\<rparr>"

definition not_found_404_text :: axios_error where
  "not_found_404_text =
     \<lparr>response = Some \<lparr>http_status = 404, http_data = Some (JString ''Recipient not found'')\<rparr>,
      message = ''Request failed with status code 404''\<rparr>"

definition network_failure :: axios_error where
  "network_failure = \<lparr>response = None, message = ''Network Error''\<rparr>"

definition net_401 :: "ident \<Rightarrow> list_response option axios_outcome" where
  "net_401 uid = AxiosRejected unauthorized_401"

definition item_401 :: "ident \<Rightarrow> item_response option axios_outcome" where
  "item_401 i = AxiosRejected unauthorized_401"

definition delete_401 :: "ident \<Rightarrow> unit axios_outcome" where
  "delete_401 i = AxiosRejected unauthorized_401"

definition delete_404 :: "ident \<Rightarrow> unit axios_outcome" where
  "delete_404 i = AxiosRejected not_found_404"

definition share_404 :: "ident \<Rightarrow> string \<Rightarrow> unit axios_outcome" where
  "share_404 i r = AxiosRejected not_found_404"

definition share_404_text :: "ident \<Rightarrow> string \<Rightarrow> unit axios_outcome" where
  "share_404_text i r = AxiosRejected not_found_404_text"

definition share_offline :: "ident \<Rightarrow> string \<Rightarrow> unit axios_outcome" where
  "share_offline i r = AxiosRejected network_failure"

text \<open>The share dialog open on the third summary, with a recipient typed in.\<close>

definition sharing_state :: list_state where
  "sharing_state =
     loaded_state\<lparr>sharingSummary := Some python_code, recipient := ''bob@example.com''\<rparr>"

text \<open>
  A stored session: a token that the decoder below accepts, with expiry second
  1700000000, and the profile of \<open>alice\<close>.
\<close>

definition stored_session :: auth_state where
  "stored_session =
     \<lparr>localStorage = [''auth_token'' \<mapsto> ''header.payload.signature'', ''user_data'' \<mapsto> ''{id:7}''],
      isAuthenticated = False, userData = None, auth_summaries = Items [],
      auth_loading = True, auth_error = None\<rparr>"

definition decode_example :: "string \<Rightarrow> jwt option" where
  "decode_example token =
     (if token = ''header.payload.signature'' then Some \<lparr>jwt_exp = Some 1700000000\<rparr> else None)"

definition parse_example :: "string \<Rightarrow> user option" where
  "parse_example text = (if text = ''{id:7}'' then Some alice else None)"

text \<open>The application with \<open>alice\<close> logged in and her three summaries loaded.\<close>

definition logged_in_app :: app_state where
  "logged_in_app =
     \<lparr>session = stored_session\<lparr>isAuthenticated := True, userData := Some alice,
                                 auth_loading := False\<rparr>,
      collection = loaded_state\<rparr>"

section \<open>Facts about the string operations\<close>

lemma includes_iff_sublist: "str_includes s q = sublist q s"
  by (induction s) (simp_all add: sublist_Cons_right)

lemma includes_Nil [simp]: "str_includes s []"
  by (simp add: includes_iff_sublist)

section \<open>Facts about the filter\<close>

lemma filterCallback_string_fields:
  "string_fields s \<Longrightarrow>
     filterCallback toLowerCase tab q s = Inr (displayed_lowercased_type toLowerCase tab q s)"
  by (auto simp: string_fields_def filterCallback_def matchesTab_def matchesSearch_def
      call_toLowerCase_def displayed_lowercased_type_def includes_iff_sublist)

lemma in_data_model_string_fields: "in_data_model s \<Longrightarrow> string_fields s"
  by (auto simp: in_data_model_def string_fields_def)

lemma in_data_model_displayed:
  "fixes_categories toLowerCase \<Longrightarrow> in_data_model s \<Longrightarrow>
     displayed_lowercased_type toLowerCase tab q s = displayed toLowerCase tab q s"
  by (auto simp: fixes_categories_def in_data_model_def displayed_lowercased_type_def
      displayed_def)

lemma filterCallback_data_model:
  "fixes_categories toLowerCase \<Longrightarrow> in_data_model s \<Longrightarrow>
     filterCallback toLowerCase tab q s = Inr (displayed toLowerCase tab q s)"
  by (simp add: filterCallback_string_fields in_data_model_string_fields in_data_model_displayed)

lemma displayed_empty_query:
  "in_data_model x \<Longrightarrow> toLowerCase [] = [] \<Longrightarrow>
     displayed toLowerCase tab [] x = (tab = ''all'' \<or> type x = Some tab)"
  by (auto simp: displayed_def in_data_model_def)

lemma array_filter_total:
  "list_all (\<lambda>x. f x = Inr (p x)) xs \<Longrightarrow> array_filter f xs = Inr (filter p xs)"
  by (induction xs) simp_all

lemma array_filter_again:
  "array_filter f xs = Inr ys \<Longrightarrow> array_filter f ys = Inr ys"
proof (induction xs arbitrary: ys)
  case Nil
  then show ?case by simp
next
  case (Cons x xs)
  then show ?case by (auto split: sum.splits if_splits)
qed

lemma array_filter_data_model:
  assumes "fixes_categories toLowerCase" and "list_all in_data_model xs"
  shows "array_filter (filterCallback toLowerCase tab q) xs
           = Inr (filter (displayed toLowerCase tab q) xs)"
proof (rule array_filter_total)
  from assms show "list_all (\<lambda>x. filterCallback toLowerCase tab q x
      = Inr (displayed toLowerCase tab q x)) xs"
    by (simp add: list_all_iff filterCallback_data_model)
qed

lemma filter_empty_query:
  assumes "toLowerCase [] = []" and "list_all in_data_model xs"
  shows "filter (displayed toLowerCase tab []) xs
           = filter (\<lambda>x. tab = ''all'' \<or> type x = Some tab) xs"
  by (rule filter_cong) (use assms in \<open>simp_all add: list_all_iff displayed_empty_query\<close>)

lemma filterCallback_raises:
  "(filterCallback toLowerCase tab q x = Inl TypeError) = callback_raises toLowerCase tab q x"
  by (auto simp: filterCallback_def matchesTab_def matchesSearch_def call_toLowerCase_def
      callback_raises_def includes_iff_sublist split: option.splits sum.splits)

lemma string_fields_no_raise: "string_fields x \<Longrightarrow> \<not> callback_raises toLowerCase tab q x"
  by (auto simp: string_fields_def callback_raises_def split: option.splits)

lemma array_filter_Inl_iff:
  "(array_filter f xs = Inl TypeError) = list_ex (\<lambda>x. f x = Inl TypeError) xs"
proof (induction xs)
  case Nil
  then show ?case by simp
next
  case (Cons x xs)
  show ?case
  proof (cases "f x")
    case (Inl e)
    then show ?thesis by (cases e) simp
  next
    case (Inr b)
    then show ?thesis using Cons.IH
      by (cases "array_filter f xs") (auto intro: js_error.exhaust)
  qed
qed

lemma array_filter_raises_iff:
  "(array_filter (filterCallback toLowerCase tab q) xs = Inl TypeError)
     = list_ex (callback_raises toLowerCase tab q) xs"
  by (simp add: array_filter_Inl_iff filterCallback_raises)

lemma array_filter_string_fields:
  assumes "list_all string_fields xs"
  shows "\<exists>ys. array_filter (filterCallback toLowerCase tab q) xs = Inr ys"
proof -
  from assms have "\<not> list_ex (callback_raises toLowerCase tab q) xs"
    by (auto simp: list_all_iff list_ex_iff string_fields_no_raise)
  then have "array_filter (filterCallback toLowerCase tab q) xs \<noteq> Inl TypeError"
    by (simp add: array_filter_raises_iff)
  then show ?thesis
    by (cases "array_filter (filterCallback toLowerCase tab q) xs")
      (auto intro: js_error.exhaust)
qed

lemma scenario_in_data_model: "list_all in_data_model (scenario_list (Some d1) (Some d2))"
  by (simp add: scenario_list_def in_data_model_def)

section \<open>Facts about the gateway and the handlers\<close>

lemma rethrow_by_data:
  "Option.bind (response e1) http_data = Option.bind (response e2) http_data \<Longrightarrow>
     rethrow fallback e1 = rethrow fallback e2"
  by (cases "response e1"; cases "response e2") (auto simp: rethrow_def split: option.splits)

lemma gateway_rejected: "gateway m (AxiosRejected e) = Inl (rethrow (fallback_message m) e)"
  by (simp add: gateway_def)

lemma await_rejected:
  "net (user_id usr) = AxiosRejected e \<Longrightarrow>
     await_getUserSummaries (Some usr) net
       = Inl (Rejected (rethrow ''Error fetching summaries'' e))"
  by (simp add: await_getUserSummaries_def getUserSummaries_def gateway_rejected)

lemma await_shared_rejected:
  "net (user_id usr) = AxiosRejected e \<Longrightarrow>
     await_getUserSharedSummaries (Some usr) net
       = Inl (Rejected (rethrow ''Error fetching shared summaries'' e))"
  by (simp add: await_getUserSharedSummaries_def getUserSharedSummaries_def gateway_rejected)

lemma settle_caught:
  "error (fetchSummaries_settle (Inl c) s)
     = Some ''Failed to load summaries. Please try again later.'' \<and>
   summaries (fetchSummaries_settle (Inl c) s) = summaries s"
  by (simp add: fetchSummaries_settle_def check_response_def)

lemma settle_shared_caught:
  "error (fetchSharedSummaries_settle (Inl c) s)
     = Some ''Failed to load shared summaries. Please try again later.'' \<and>
   sharedSummaries (fetchSharedSummaries_settle (Inl c) s) = sharedSummaries s"
  by (simp add: fetchSharedSummaries_settle_def check_response_def)

lemma fetch_begin_lists:
  "summaries (fetch_begin s) = summaries s \<and> sharedSummaries (fetch_begin s) = sharedSummaries s"
  by (simp add: fetch_begin_def)

lemma settle_ok: "list_of k (fetch_step (Settled k (ok_response xs)) s) = xs"
  by (cases k)
    (simp_all add: list_of_def fetchSummaries_settle_def fetchSharedSummaries_settle_def
      ok_response_def check_response_def)

lemma fetch_step_view: "currentView (fetch_step ev s) = currentView s"
proof (cases ev)
  case (Issued k)
  then show ?thesis by (simp add: fetch_begin_def)
next
  case (Settled k r)
  then show ?thesis
    by (cases k)
      (simp_all add: fetchSummaries_settle_def fetchSharedSummaries_settle_def
        split: sum.splits)
qed

lemma run_schedule_view: "currentView (run_schedule evs s) = currentView s"
  by (induction evs arbitrary: s) (simp_all add: fetch_step_view)

lemma run_schedule_append:
  "run_schedule (evs @ evs') s = run_schedule evs' (run_schedule evs s)"
  by (induction evs arbitrary: s) simp_all

lemma run_schedule_last:
  "list_of k (run_schedule (evs @ [Settled k (ok_response xs)]) s) = xs"
  by (simp add: run_schedule_append settle_ok)

lemma items_list_of: "items s = list_of (currentView s) s"
  by (cases "currentView s") (simp_all add: items_def list_of_def)

lemma checks_fail_iff:
  "(\<exists>f. verifyToken_checks jwtDecode JSON_parse now s = Inl f)
     = startup_fails jwtDecode JSON_parse now s"
  by (auto simp: verifyToken_checks_def startup_fails_def falsy_def expired_def Let_def
      split: option.splits if_splits)

lemma prefetch_keeps_session:
  "isAuthenticated (prefetch_summaries r s) = isAuthenticated s \<and>
   localStorage (prefetch_summaries r s) = localStorage s \<and>
   userData (prefetch_summaries r s) = userData s"
  by (simp add: prefetch_summaries_def split: sum.splits option.splits)

lemma share_detail:
  "detail (Rejected (rethrow fallback e))
     = (case response e of
          None \<Rightarrow> None
        | Some resp \<Rightarrow>
            (case http_data resp of
               Some (JObject members) \<Rightarrow> map_of members ''detail''
             | _ \<Rightarrow> None))"
  by (simp add: detail_def rethrow_def split: option.splits json.splits)

section \<open>The filter: claims C2, C8 and C9\<close>

text \<open>
  C8 (filter idempotence). Whenever the filter of the owned list returns a list, running
  the same filter (same tab, same query) on that list returns it again, unchanged; the
  same holds for the filter of the shared list. This is so for whatever the builtin
  \<open>toLowerCase\<close> does.
\<close>

theorem filteredSummaries_idempotent:
  "(filteredSummaries toLowerCase s = Inr ys \<longrightarrow>
      filteredSummaries toLowerCase (s\<lparr>summaries := ys\<rparr>) = Inr ys) \<and>
   (filteredSharedSummaries toLowerCase s = Inr zs \<longrightarrow>
      filteredSharedSummaries toLowerCase (s\<lparr>sharedSummaries := zs\<rparr>) = Inr zs)"
  by (simp add: filteredSummaries_def filteredSharedSummaries_def array_filter_again)

theorem filteredSummaries_idempotent_witness:
  "filteredSummaries ascii_toLowerCase
     (loaded_state\<lparr>activeTab := ''code'', searchQuery := ''React''\<rparr>)
     = Inr [react_code] \<and>
   filteredSummaries ascii_toLowerCase
     (loaded_state\<lparr>activeTab := ''code'', searchQuery := ''React'', summaries := [react_code]\<rparr>)
     = Inr [react_code] \<and>
   filteredSharedSummaries ascii_toLowerCase
     (loaded_state\<lparr>activeTab := ''code'', searchQuery := ''React'',
                   sharedSummaries := [react_code, python_code]\<rparr>)
     = Inr [react_code] \<and>
   filteredSharedSummaries ascii_toLowerCase
     (loaded_state\<lparr>activeTab := ''code'', searchQuery := ''React'',
                   sharedSummaries := [react_code, python_code],
                   sharedSummaries := [react_code]\<rparr>)
     = Inr [react_code]"
proof -
  have owned: "filteredSummaries ascii_toLowerCase
      (loaded_state\<lparr>activeTab := ''code'', searchQuery := ''React''\<rparr>)
      = Inr [react_code]"
    by code_simp
  have shared: "filteredSharedSummaries ascii_toLowerCase
      (loaded_state\<lparr>activeTab := ''code'', searchQuery := ''React'',
                    sharedSummaries := [react_code, python_code]\<rparr>)
      = Inr [react_code]"
    by code_simp
  from owned shared
    filteredSummaries_idempotent
      [of ascii_toLowerCase "loaded_state\<lparr>activeTab := ''code'', searchQuery := ''React''\<rparr>"
          "[react_code]" "[react_code]"]
    filteredSummaries_idempotent
      [of ascii_toLowerCase
          "loaded_state\<lparr>activeTab := ''code'', searchQuery := ''React'',
                        sharedSummaries := [react_code, python_code]\<rparr>" "[react_code]"
          "[react_code]"]
  show ?thesis by simp
qed

text \<open>
  C2 (what the filter shows), as amended. Take any list of the data model (titles and
  output texts are strings, types are among code, documentation and research), owned or
  shared, and any tab and query. The filter returns, in their order, exactly the items
  for which (1) the tab is \<open>all\<close> or the item's type equals the tab, and (2) the
  lowercased query is a contiguous part of the lowercased title or of the lowercased
  output text; with the empty query only (1) decides. For the list of scenario 6, whose
  two items have output texts \<open>d1\<close> and \<open>d2\<close>, the tab \<open>research\<close> shows exactly the item
  with id 2, and the query \<open>A\<close> on top of it shows nothing if \<open>d2\<close>, lowercased, has no
  letter a, and the item with id 2 if it has one. Of the builtin \<open>toLowerCase\<close> only
  this is used: it leaves the three category names and the empty text as they are, and
  it takes \<open>A\<close> to \<open>a\<close> and \<open>B\<close> to \<open>b\<close>.
\<close>

theorem filteredSummaries_displayed:
  "(fixes_categories toLowerCase \<and> list_all in_data_model (summaries s) \<longrightarrow>
      filteredSummaries toLowerCase s
        = Inr (filter (displayed toLowerCase (activeTab s) (searchQuery s)) (summaries s))) \<and>
   (fixes_categories toLowerCase \<and> list_all in_data_model (sharedSummaries s) \<longrightarrow>
      filteredSharedSummaries toLowerCase s
        = Inr (filter (displayed toLowerCase (activeTab s) (searchQuery s))
                 (sharedSummaries s))) \<and>
   (fixes_categories toLowerCase \<and> toLowerCase [] = [] \<and>
    list_all in_data_model (summaries s) \<and> searchQuery s = [] \<longrightarrow>
      filteredSummaries toLowerCase s
        = Inr (filter (\<lambda>x. activeTab s = ''all'' \<or> type x = Some (activeTab s))
                 (summaries s))) \<and>
   (fixes_categories toLowerCase \<and> toLowerCase [] = [] \<longrightarrow>
      filteredSummaries toLowerCase
        (s\<lparr>summaries := scenario_list (Some d1) (Some d2), activeTab := ''research'',
           searchQuery := []\<rparr>)
        = Inr [\<lparr>summary_id = NumId 2, title = Some ''B'', type = Some ''research'',
                 outputData = Some d2\<rparr>]) \<and>
   (fixes_categories toLowerCase \<and> toLowerCase ''A'' = ''a'' \<and> toLowerCase ''B'' = ''b'' \<longrightarrow>
      filteredSummaries toLowerCase
        (s\<lparr>summaries := scenario_list (Some d1) (Some d2), activeTab := ''research'',
           searchQuery := ''A''\<rparr>)
        = Inr (if sublist ''a'' (toLowerCase d2)
               then [\<lparr>summary_id = NumId 2, title = Some ''B'', type = Some ''research'',
                       outputData = Some d2\<rparr>]
               else []))"
proof (intro conjI impI)
  assume "fixes_categories toLowerCase \<and> list_all in_data_model (summaries s)"
  then show "filteredSummaries toLowerCase s
      = Inr (filter (displayed toLowerCase (activeTab s) (searchQuery s)) (summaries s))"
    by (simp add: filteredSummaries_def array_filter_data_model)
next
  assume "fixes_categories toLowerCase \<and> list_all in_data_model (sharedSummaries s)"
  then show "filteredSharedSummaries toLowerCase s
      = Inr (filter (displayed toLowerCase (activeTab s) (searchQuery s)) (sharedSummaries s))"
    by (simp add: filteredSharedSummaries_def array_filter_data_model)
next
  assume "fixes_categories toLowerCase \<and> toLowerCase [] = [] \<and>
    list_all in_data_model (summaries s) \<and> searchQuery s = []"
  then show "filteredSummaries toLowerCase s
      = Inr (filter (\<lambda>x. activeTab s = ''all'' \<or> type x = Some (activeTab s)) (summaries s))"
    by (simp add: filteredSummaries_def array_filter_data_model filter_empty_query)
next
  assume "fixes_categories toLowerCase \<and> toLowerCase [] = []"
  then show "filteredSummaries toLowerCase
      (s\<lparr>summaries := scenario_list (Some d1) (Some d2), activeTab := ''research'',
         searchQuery := []\<rparr>)
      = Inr [\<lparr>summary_id = NumId 2, title = Some ''B'', type = Some ''research'',
               outputData = Some d2\<rparr>]"
    by (simp add: filteredSummaries_def array_filter_data_model scenario_in_data_model)
      (simp add: scenario_list_def displayed_def)
next
  have parts: "sublist ''a'' ''a''" "\<not> sublist ''a'' ''b''"
    by code_simp+
  assume "fixes_categories toLowerCase \<and> toLowerCase ''A'' = ''a'' \<and> toLowerCase ''B'' = ''b''"
  then show "filteredSummaries toLowerCase
      (s\<lparr>summaries := scenario_list (Some d1) (Some d2), activeTab := ''research'',
         searchQuery := ''A''\<rparr>)
      = Inr (if sublist ''a'' (toLowerCase d2)
             then [\<lparr>summary_id = NumId 2, title = Some ''B'', type = Some ''research'',
                     outputData = Some d2\<rparr>]
             else [])"
    by (simp add: filteredSummaries_def array_filter_data_model scenario_in_data_model)
      (simp add: scenario_list_def displayed_def parts)
qed

theorem filteredSummaries_displayed_witness:
  "fixes_categories ascii_toLowerCase \<and>
   ascii_toLowerCase [] = [] \<and>
   ascii_toLowerCase ''A'' = ''a'' \<and>
   ascii_toLowerCase ''B'' = ''b'' \<and>
   list_all in_data_model (summaries (loaded_state\<lparr>activeTab := ''code''\<rparr>)) \<and>
   searchQuery (loaded_state\<lparr>activeTab := ''code''\<rparr>) = [] \<and>
   filteredSummaries ascii_toLowerCase (loaded_state\<lparr>activeTab := ''code''\<rparr>)
     = Inr (filter (displayed ascii_toLowerCase (activeTab (loaded_state\<lparr>activeTab := ''code''\<rparr>))
                      (searchQuery (loaded_state\<lparr>activeTab := ''code''\<rparr>)))
              (summaries (loaded_state\<lparr>activeTab := ''code''\<rparr>))) \<and>
   filteredSummaries ascii_toLowerCase (loaded_state\<lparr>activeTab := ''code''\<rparr>)
     = Inr [react_code, python_code] \<and>
   list_all in_data_model
     (sharedSummaries (loaded_state\<lparr>sharedSummaries := [react_research, python_code],
                                   activeTab := ''research''\<rparr>)) \<and>
   filteredSharedSummaries ascii_toLowerCase
     (loaded_state\<lparr>sharedSummaries := [react_research, python_code], activeTab := ''research''\<rparr>)
     = Inr [react_research] \<and>
   filteredSummaries ascii_toLowerCase
     (loaded_state\<lparr>summaries := scenario_list (Some ''Code notes'') (Some ''Minutes''),
                   activeTab := ''research'', searchQuery := ''A''\<rparr>)
     = Inr []"
proof -
  let ?code = "loaded_state\<lparr>activeTab := ''code''\<rparr>"
  let ?shared = "loaded_state\<lparr>sharedSummaries := [react_research, python_code],
                              activeTab := ''research''\<rparr>"
  have builtin: "fixes_categories ascii_toLowerCase" "ascii_toLowerCase [] = []"
    "ascii_toLowerCase ''A'' = ''a''" "ascii_toLowerCase ''B'' = ''b''"
    by code_simp+
  have fields: "list_all in_data_model (summaries ?code)"
    by code_simp
  have query: "searchQuery ?code = []"
    by (simp add: loaded_state_def initial_state_def)
  have shown: "filteredSummaries ascii_toLowerCase ?code = Inr [react_code, python_code]"
    by code_simp
  have shared_fields: "list_all in_data_model (sharedSummaries ?shared)"
    by code_simp
  have shared_shown: "filter (displayed ascii_toLowerCase (activeTab ?shared) (searchQuery ?shared))
      (sharedSummaries ?shared) = [react_research]"
    by code_simp
  have no_a: "\<not> sublist ''a'' (ascii_toLowerCase ''Minutes'')"
    by code_simp
  note owned = filteredSummaries_displayed [of ascii_toLowerCase ?code "''Code notes''" "''Minutes''"]
  note shared = filteredSummaries_displayed [of ascii_toLowerCase ?shared "''Code notes''" "''Minutes''"]
  from owned builtin fields
  have first: "filteredSummaries ascii_toLowerCase ?code
      = Inr (filter (displayed ascii_toLowerCase (activeTab ?code) (searchQuery ?code))
               (summaries ?code))"
    by blast
  from shared builtin shared_fields
  have "filteredSharedSummaries ascii_toLowerCase ?shared
      = Inr (filter (displayed ascii_toLowerCase (activeTab ?shared) (searchQuery ?shared))
               (sharedSummaries ?shared))"
    by blast
  then have second: "filteredSharedSummaries ascii_toLowerCase ?shared = Inr [react_research]"
    by (simp only: shared_shown)
  from filteredSummaries_displayed [of ascii_toLowerCase loaded_state "''Code notes''" "''Minutes''"]
    builtin
  have "filteredSummaries ascii_toLowerCase
      (loaded_state\<lparr>summaries := scenario_list (Some ''Code notes'') (Some ''Minutes''),
                    activeTab := ''research'', searchQuery := ''A''\<rparr>)
      = Inr (if sublist ''a'' (ascii_toLowerCase ''Minutes'')
             then [\<lparr>summary_id = NumId 2, title = Some ''B'', type = Some ''research'',
                     outputData = Some ''Minutes''\<rparr>]
             else [])"
    by blast
  with no_a have third: "filteredSummaries ascii_toLowerCase
      (loaded_state\<lparr>summaries := scenario_list (Some ''Code notes'') (Some ''Minutes''),
                    activeTab := ''research'', searchQuery := ''A''\<rparr>)
      = Inr []"
    by simp
  from builtin fields query first shown shared_fields second third show ?thesis
    by (intro conjI)
qed

text \<open>
  C2 as stated fails on the code, inside the data model: give the two items of
  scenario 6 output texts, the second one \<open>Research data\<close>. Under the tab \<open>research\<close> the
  query \<open>A\<close> then shows the item with id 2, because its output text contains an a; the
  claim says the list is empty.
\<close>

theorem filteredSummaries_scenario_counterexample:
  "list_all in_data_model (scenario_list (Some ''Code notes'') (Some ''Research data'')) \<and>
   filteredSummaries ascii_toLowerCase
     (initial_state\<lparr>summaries := scenario_list (Some ''Code notes'') (Some ''Research data''),
                    activeTab := ''research'', searchQuery := ''A''\<rparr>)
     = Inr [\<lparr>summary_id = NumId 2, title = Some ''B'', type = Some ''research'',
              outputData = Some ''Research data''\<rparr>]"
  by code_simp

text \<open>
  C9 (when the filter raises), as amended. On a list whose items all carry \<open>title\<close>,
  \<open>type\<close> and \<open>outputData\<close> as strings the filter returns a list. In general the filter
  ends in a TypeError exactly when the list has an item on which the callback raises:
  an item without a title; an item without a type while the tab is not \<open>all\<close>; or an
  item without an output text whose lowercased title does not contain the lowercased
  query. This holds for the owned and for the shared list, and for whatever the builtin
  \<open>toLowerCase\<close> does.
\<close>

theorem filteredSummaries_raises:
  "(list_all string_fields (summaries s) \<longrightarrow> (\<exists>ys. filteredSummaries toLowerCase s = Inr ys)) \<and>
   ((filteredSummaries toLowerCase s = Inl TypeError)
      = list_ex (callback_raises toLowerCase (activeTab s) (searchQuery s)) (summaries s)) \<and>
   (list_all string_fields (sharedSummaries s) \<longrightarrow>
      (\<exists>ys. filteredSharedSummaries toLowerCase s = Inr ys)) \<and>
   ((filteredSharedSummaries toLowerCase s = Inl TypeError)
      = list_ex (callback_raises toLowerCase (activeTab s) (searchQuery s)) (sharedSummaries s))"
  by (simp add: filteredSummaries_def filteredSharedSummaries_def array_filter_raises_iff
      array_filter_string_fields)

theorem filteredSummaries_raises_witness:
  "list_all string_fields (summaries loaded_state) \<and>
   (\<exists>ys. filteredSummaries ascii_toLowerCase loaded_state = Inr ys) \<and>
   list_ex (callback_raises ascii_toLowerCase ''research'' ''A'') (scenario_list None None) \<and>
   filteredSummaries ascii_toLowerCase
     (initial_state\<lparr>summaries := scenario_list None None, activeTab := ''research'',
                    searchQuery := ''A''\<rparr>)
     = Inl TypeError \<and>
   list_all string_fields (sharedSummaries (loaded_state\<lparr>sharedSummaries := [python_code]\<rparr>)) \<and>
   (\<exists>ys. filteredSharedSummaries ascii_toLowerCase
            (loaded_state\<lparr>sharedSummaries := [python_code]\<rparr>) = Inr ys) \<and>
   filteredSharedSummaries ascii_toLowerCase
     (initial_state\<lparr>sharedSummaries := scenario_list None None, activeTab := ''research'',
                    searchQuery := ''A''\<rparr>)
     = Inl TypeError"
proof -
  have fields: "list_all string_fields (summaries loaded_state)"
    by code_simp
  have shared_fields:
    "list_all string_fields (sharedSummaries (loaded_state\<lparr>sharedSummaries := [python_code]\<rparr>))"
    by code_simp
  have raises: "list_ex (callback_raises ascii_toLowerCase ''research'' ''A'')
      (scenario_list None None)"
    by code_simp
  from fields shared_fields raises
    filteredSummaries_raises [of loaded_state ascii_toLowerCase]
    filteredSummaries_raises [of "loaded_state\<lparr>sharedSummaries := [python_code]\<rparr>" ascii_toLowerCase]
    filteredSummaries_raises
      [of "initial_state\<lparr>summaries := scenario_list None None, activeTab := ''research'',
                         searchQuery := ''A''\<rparr>" ascii_toLowerCase]
    filteredSummaries_raises
      [of "initial_state\<lparr>sharedSummaries := scenario_list None None, activeTab := ''research'',
                         searchQuery := ''A''\<rparr>" ascii_toLowerCase]
  show ?thesis by simp
qed

text \<open>
  C9 as stated fails on the code: items without an output text do not make the filter
  fail when their titles contain the query (here the empty query), and without a type
  they do not when the tab is \<open>all\<close>. Such items are shown.
\<close>

theorem filteredSummaries_missing_field_counterexample:
  "filteredSummaries ascii_toLowerCase (initial_state\<lparr>summaries := scenario_list None None\<rparr>)
     = Inr (scenario_list None None) \<and>
   filteredSummaries ascii_toLowerCase
     (initial_state\<lparr>summaries :=
        [\<lparr>summary_id = NumId 1, title = Some ''A'', type = None, outputData = None\<rparr>]\<rparr>)
     = Inr [\<lparr>summary_id = NumId 1, title = Some ''A'', type = None, outputData = None\<rparr>]"
  by code_simp

section \<open>Loading the list: claims C1 and C7\<close>

text \<open>
  C7 (malformed and well-formed responses). When the request of the current view
  resolves with a response whose status is not \<open>OK\<close> or whose result is not an array,
  \<open>loadActiveList\<close> sets \<open>error\<close> and leaves the list of the current view, and both
  lists, as they were; when the response has status \<open>OK\<close> and an array as result, the
  list of the current view becomes that array.
\<close>

theorem loadActiveList_response:
  assumes "(if currentView s = MySummaries then net_owned else net_shared) (user_id usr)
             = AxiosResolved (Some r)"
  shows "(status r \<noteq> Some ''OK'' \<or> \<not> isArray (result r) \<longrightarrow>
            error (loadActiveList (Some usr) net_owned net_shared s) \<noteq> None \<and>
            items (loadActiveList (Some usr) net_owned net_shared s) = items s \<and>
            summaries (loadActiveList (Some usr) net_owned net_shared s) = summaries s \<and>
            sharedSummaries (loadActiveList (Some usr) net_owned net_shared s) = sharedSummaries s) \<and>
         (status r = Some ''OK'' \<and> result r = Items xs \<longrightarrow>
            items (loadActiveList (Some usr) net_owned net_shared s) = xs)"
proof (cases "currentView s = MySummaries")
  case True
  with assms have "await_getUserSummaries (Some usr) net_owned = Inr (Some r)"
    by (simp add: await_getUserSummaries_def getUserSummaries_def gateway_def)
  with True show ?thesis
    by (auto simp: loadActiveList_def items_def fetchSummaries_def fetchSummaries_settle_def
        check_response_def isArray_def fetch_begin_def split: payload.splits)
next
  case False
  with assms have "await_getUserSharedSummaries (Some usr) net_shared = Inr (Some r)"
    by (simp add: await_getUserSharedSummaries_def getUserSharedSummaries_def gateway_def)
  with False show ?thesis
    by (auto simp: loadActiveList_def items_def fetchSharedSummaries_def
        fetchSharedSummaries_settle_def check_response_def isArray_def fetch_begin_def
        split: payload.splits)
qed

theorem loadActiveList_response_witness:
  "net_not_ok (user_id alice)
     = AxiosResolved (Some \<lparr>status = Some ''ERROR'', result = Items [react_code]\<rparr>) \<and>
   error (loadActiveList (Some alice) net_not_ok (net_ok []) loaded_state) \<noteq> None \<and>
   items (loadActiveList (Some alice) net_not_ok (net_ok []) loaded_state) = items loaded_state \<and>
   net_not_array (user_id alice)
     = AxiosResolved (Some \<lparr>status = Some ''OK'', result = NotArray\<rparr>) \<and>
   error (loadActiveList (Some alice) net_not_array (net_ok []) loaded_state) \<noteq> None \<and>
   items (loadActiveList (Some alice) net_not_array (net_ok []) loaded_state)
     = items loaded_state \<and>
   net_ok [python_code] (user_id alice)
     = AxiosResolved (Some \<lparr>status = Some ''OK'', result = Items [python_code]\<rparr>) \<and>
   items (loadActiveList (Some alice) (net_ok [python_code]) (net_ok []) loaded_state)
     = [python_code]"
proof -
  have view: "currentView loaded_state = MySummaries"
    by (simp add: loaded_state_def initial_state_def)
  have not_ok: "(if currentView loaded_state = MySummaries then net_not_ok else net_ok [])
      (user_id alice)
      = AxiosResolved (Some \<lparr>status = Some ''ERROR'', result = Items [react_code]\<rparr>)"
    by (simp add: view net_not_ok_def)
  have not_array: "(if currentView loaded_state = MySummaries then net_not_array else net_ok [])
      (user_id alice)
      = AxiosResolved (Some \<lparr>status = Some ''OK'', result = NotArray\<rparr>)"
    by (simp add: view net_not_array_def)
  have good: "(if currentView loaded_state = MySummaries then net_ok [python_code] else net_ok [])
      (user_id alice)
      = AxiosResolved (Some \<lparr>status = Some ''OK'', result = Items [python_code]\<rparr>)"
    by (simp add: view net_ok_def)
  from loadActiveList_response [OF not_ok, of "[]"]
    loadActiveList_response [OF not_array, of "[]"]
    loadActiveList_response [OF good, of "[python_code]"]
    not_ok not_array good view
  show ?thesis by (simp add: isArray_def)
qed

text \<open>
  C1 (overlapping calls), as amended. There is no request token: for either list kind,
  every well-formed response writes the list of its kind when it settles. With two
  overlapping calls for one kind, that list ends as the payload of whichever response
  settles last; when the first call's response settles after the second call's, that is
  the first response's payload. In general, after any schedule that ends with a
  well-formed response for a kind, the list of that kind is that response's payload.
  When the kind is the current view, the list in question is \<open>items\<close>.
\<close>

theorem overlapping_last_settled_wins:
  "list_of k (run_schedule [Issued k, Issued k, Settled k (ok_response second),
                            Settled k (ok_response first)] s) = first \<and>
   list_of k (run_schedule [Issued k, Issued k, Settled k (ok_response first),
                            Settled k (ok_response second)] s) = second \<and>
   list_of k (run_schedule (evs @ [Settled k (ok_response xs)]) s) = xs \<and>
   (currentView s = k \<longrightarrow>
      items (run_schedule [Issued k, Issued k, Settled k (ok_response second),
                           Settled k (ok_response first)] s) = first \<and>
      items (run_schedule [Issued k, Issued k, Settled k (ok_response first),
                           Settled k (ok_response second)] s) = second \<and>
      items (run_schedule (evs @ [Settled k (ok_response xs)]) s) = xs)"
proof -
  have stale: "list_of k (run_schedule [Issued k, Issued k, Settled k (ok_response second),
      Settled k (ok_response first)] s) = first" for first second
    using run_schedule_last [of k "[Issued k, Issued k, Settled k (ok_response second)]" first s]
    by simp
  have last: "list_of k (run_schedule (evs @ [Settled k (ok_response xs)]) s) = xs"
    by (rule run_schedule_last)
  have current: "items (run_schedule sched s) = list_of k (run_schedule sched s)"
    if "currentView s = k" for sched
    using that by (simp add: items_list_of run_schedule_view)
  have shown_stale: "items (run_schedule [Issued k, Issued k, Settled k (ok_response second),
      Settled k (ok_response first)] s) = first" if "currentView s = k" for first second
    by (simp only: current [OF that] stale)
  have shown_last: "items (run_schedule (evs @ [Settled k (ok_response xs)]) s) = xs"
    if "currentView s = k"
    by (simp only: current [OF that] last)
  from stale [of second first] stale [of first second] last
    shown_stale [of second first] shown_stale [of first second] shown_last
  show ?thesis by blast
qed

theorem overlapping_last_settled_wins_witness:
  "currentView (loaded_state\<lparr>currentView := SharedSummaries\<rparr>) = SharedSummaries \<and>
   items (run_schedule [Issued SharedSummaries, Issued SharedSummaries,
                        Settled SharedSummaries (ok_response [react_research]),
                        Settled SharedSummaries (ok_response [react_code])]
            (loaded_state\<lparr>currentView := SharedSummaries\<rparr>)) = [react_code] \<and>
   items (run_schedule [Issued SharedSummaries, Issued SharedSummaries,
                        Settled SharedSummaries (ok_response [react_code]),
                        Settled SharedSummaries (ok_response [react_research])]
            (loaded_state\<lparr>currentView := SharedSummaries\<rparr>)) = [react_research] \<and>
   items (run_schedule ([Issued MySummaries] @ [Settled SharedSummaries (ok_response [python_code])])
            (loaded_state\<lparr>currentView := SharedSummaries\<rparr>)) = [python_code]"
proof -
  have view: "currentView (loaded_state\<lparr>currentView := SharedSummaries\<rparr>) = SharedSummaries"
    by simp
  from view
    overlapping_last_settled_wins
      [of SharedSummaries "[react_research]" "[react_code]"
          "loaded_state\<lparr>currentView := SharedSummaries\<rparr>" "[Issued MySummaries]"
          "[python_code]"]
  show ?thesis by blast
qed

text \<open>
  C1 as stated fails on the code: two calls for the owned list are issued, the second
  call's response (the research summary) settles first and the first call's response
  (the code summary) settles last; the owned list, which is \<open>items\<close> in the owned view,
  ends as the first response's payload, not the second's. The same happens to the
  shared list in the shared view.
\<close>

theorem overlapping_stale_response_counterexample:
  "summaries (run_schedule [Issued MySummaries, Issued MySummaries,
                            Settled MySummaries (ok_response [react_research]),
                            Settled MySummaries (ok_response [react_code])] initial_state)
     = [react_code] \<and>
   items (run_schedule [Issued MySummaries, Issued MySummaries,
                        Settled MySummaries (ok_response [react_research]),
                        Settled MySummaries (ok_response [react_code])] initial_state)
     = [react_code] \<and>
   items (run_schedule [Issued SharedSummaries, Issued SharedSummaries,
                        Settled SharedSummaries (ok_response [react_research]),
                        Settled SharedSummaries (ok_response [react_code])]
            (initial_state\<lparr>currentView := SharedSummaries\<rparr>))
     = [react_code] \<and>
   [react_code] \<noteq> [react_research]"
  by code_simp

section \<open>Deleting: claims C3 and C10\<close>

text \<open>
  C3 (delete). While the delete request is in flight the owned list is unchanged. When
  the request resolves, the list becomes the old list without the items of the given
  id: no item with that id remains, and the others stay, unchanged and in their order.
  When the request is rejected, \<open>error\<close> is set and the list is exactly as before.
\<close>

theorem handleDeleteSummary_outcome:
  "summaries (handleDeleteSummary_begin s) = summaries s \<and>
   (net i = AxiosResolved () \<longrightarrow>
      summaries (handleDeleteSummary net i s) = filter (\<lambda>x. summary_id x \<noteq> i) (summaries s) \<and>
      i \<notin> summary_id ` set (summaries (handleDeleteSummary net i s)) \<and>
      subseq (summaries (handleDeleteSummary net i s)) (summaries s) \<and>
      error (handleDeleteSummary net i s) = error s) \<and>
   (net i = AxiosRejected e \<longrightarrow>
      error (handleDeleteSummary net i s)
        = Some ''Failed to delete summary. Please try again later.'' \<and>
      summaries (handleDeleteSummary net i s) = summaries s)"
  by (auto simp: handleDeleteSummary_def handleDeleteSummary_settle_def
      handleDeleteSummary_begin_def deleteUserSummary_def gateway_def)

theorem handleDeleteSummary_outcome_witness:
  "delete_ok (NumId 2) = AxiosResolved () \<and>
   summaries (handleDeleteSummary delete_ok (NumId 2) loaded_state)
     = [react_code, python_code] \<and>
   delete_404 (NumId 2) = AxiosRejected not_found_404 \<and>
   summaries (handleDeleteSummary delete_404 (NumId 2) loaded_state)
     = [react_code, react_research, python_code] \<and>
   error (handleDeleteSummary delete_404 (NumId 2) loaded_state)
     = Some ''Failed to delete summary. Please try again later.''"
proof -
  have ok: "delete_ok (NumId 2) = AxiosResolved ()"
    by (simp add: delete_ok_def)
  have bad: "delete_404 (NumId 2) = AxiosRejected not_found_404"
    by (simp add: delete_404_def)
  have list: "filter (\<lambda>x. summary_id x \<noteq> NumId 2) (summaries loaded_state)
      = [react_code, python_code]"
    by code_simp
  have same: "summaries loaded_state = [react_code, react_research, python_code]"
    by (simp add: loaded_state_def)
  from handleDeleteSummary_outcome [of loaded_state delete_ok "NumId 2" not_found_404]
    handleDeleteSummary_outcome [of loaded_state delete_404 "NumId 2" not_found_404]
    ok bad list same
  show ?thesis by simp
qed

text \<open>
  C10 (frame of delete). Whatever the delete request does, \<open>handleDeleteSummary\<close>
  leaves the shared list, the search query, the active tab, the current view and the
  selected summary as they were: the state after it differs from the state before it
  in \<open>summaries\<close>, \<open>error\<close> and \<open>deleting\<close> at most.
\<close>

theorem handleDeleteSummary_frame:
  "sharedSummaries (handleDeleteSummary net i s) = sharedSummaries s \<and>
   searchQuery (handleDeleteSummary net i s) = searchQuery s \<and>
   activeTab (handleDeleteSummary net i s) = activeTab s \<and>
   currentView (handleDeleteSummary net i s) = currentView s \<and>
   selectedSummary (handleDeleteSummary net i s) = selectedSummary s \<and>
   handleDeleteSummary net i s =
     s\<lparr>summaries := summaries (handleDeleteSummary net i s),
       error := error (handleDeleteSummary net i s),
       deleting := deleting (handleDeleteSummary net i s)\<rparr>"
  by (simp add: handleDeleteSummary_def handleDeleteSummary_settle_def
      handleDeleteSummary_begin_def split: sum.splits)

section \<open>Sharing: claim C6\<close>

text \<open>
  C6 (share), as amended. With an empty recipient, \<open>handleSendShare\<close> makes no share
  request: its only effect is the alert asking for a recipient, and the state is
  unchanged. With a recipient and a summary in the dialog, a resolved request clears
  \<open>sharingSummary\<close> and \<open>recipient\<close>. A rejected request keeps \<open>sharingSummary\<close> (the
  dialog stays open) and the recipient, and sets \<open>errorMessage\<close> to the \<open>detail\<close> field
  of the error response's data: to the server's text when the server answered with a
  JSON object whose \<open>detail\<close> is that text, and to nothing, erasing what the dialog
  showed before, when the data is an object without \<open>detail\<close>, is text or any other
  value, or when there is no data or no response.
\<close>

theorem handleSendShare_outcome:
  "(recipient s = [] \<longrightarrow>
      handleSendShare net s = ([Alert ''Please enter a recipient email or username.''], s)) \<and>
   (recipient s \<noteq> [] \<and> sharingSummary s = Some sm \<and>
    net (summary_id sm) (recipient s) = AxiosResolved () \<longrightarrow>
      fst (handleSendShare net s)
        = [ShareRequest (summary_id sm) (recipient s),
           Alert (''Summary shared successfully with '' @ recipient s)] \<and>
      sharingSummary (snd (handleSendShare net s)) = None \<and>
      recipient (snd (handleSendShare net s)) = []) \<and>
   (recipient s \<noteq> [] \<and> sharingSummary s = Some sm \<and>
    net (summary_id sm) (recipient s) = AxiosRejected e \<longrightarrow>
      fst (handleSendShare net s) = [ShareRequest (summary_id sm) (recipient s)] \<and>
      sharingSummary (snd (handleSendShare net s)) = Some sm \<and>
      recipient (snd (handleSendShare net s)) = recipient s \<and>
      errorMessage (snd (handleSendShare net s))
        = (case response e of
             None \<Rightarrow> None
           | Some resp \<Rightarrow>
               (case http_data resp of
                  Some (JObject members) \<Rightarrow> map_of members ''detail''
                | _ \<Rightarrow> None))) \<and>
   (recipient s \<noteq> [] \<and> sharingSummary s = Some sm \<and>
    net (summary_id sm) (recipient s) = AxiosRejected e \<and>
    response e = Some resp \<and> http_data resp = Some (JObject members) \<and>
    map_of members ''detail'' = Some (JString server_text) \<longrightarrow>
      errorMessage (snd (handleSendShare net s)) = Some (JString server_text)) \<and>
   (recipient s \<noteq> [] \<and> sharingSummary s = Some sm \<and>
    net (summary_id sm) (recipient s) = AxiosRejected e \<and>
    response e = Some resp \<and> http_data resp = Some (JString body_text) \<longrightarrow>
      errorMessage (snd (handleSendShare net s)) = None) \<and>
   (recipient s \<noteq> [] \<and> sharingSummary s = Some sm \<and>
    net (summary_id sm) (recipient s) = AxiosRejected e \<and> response e = None \<longrightarrow>
      errorMessage (snd (handleSendShare net s)) = None)"
proof -
  have shown: "errorMessage (snd (handleSendShare net s))
      = (case response e of
           None \<Rightarrow> None
         | Some resp \<Rightarrow>
             (case http_data resp of
                Some (JObject members) \<Rightarrow> map_of members ''detail''
              | _ \<Rightarrow> None))"
    if "recipient s \<noteq> []" "sharingSummary s = Some sm"
      "net (summary_id sm) (recipient s) = AxiosRejected e" for e
    using that
    by (simp add: handleSendShare_def shareSummary_def gateway_rejected share_detail)
  have kept: "fst (handleSendShare net s) = [ShareRequest (summary_id sm) (recipient s)] \<and>
      sharingSummary (snd (handleSendShare net s)) = Some sm \<and>
      recipient (snd (handleSendShare net s)) = recipient s"
    if "recipient s \<noteq> []" "sharingSummary s = Some sm"
      "net (summary_id sm) (recipient s) = AxiosRejected e"
    using that by (simp add: handleSendShare_def shareSummary_def gateway_rejected)
  have cleared: "fst (handleSendShare net s)
        = [ShareRequest (summary_id sm) (recipient s),
           Alert (''Summary shared successfully with '' @ recipient s)] \<and>
      sharingSummary (snd (handleSendShare net s)) = None \<and>
      recipient (snd (handleSendShare net s)) = []"
    if "recipient s \<noteq> []" "sharingSummary s = Some sm"
      "net (summary_id sm) (recipient s) = AxiosResolved ()"
    using that by (simp add: handleSendShare_def shareSummary_def gateway_def)
  have refused: "handleSendShare net s
      = ([Alert ''Please enter a recipient email or username.''], s)"
    if "recipient s = []"
    using that by (simp add: handleSendShare_def)
  show ?thesis
  proof (intro conjI impI)
    assume "recipient s = []"
    then show "handleSendShare net s
        = ([Alert ''Please enter a recipient email or username.''], s)"
      by (rule refused)
  next
    assume ok: "recipient s \<noteq> [] \<and> sharingSummary s = Some sm \<and>
      net (summary_id sm) (recipient s) = AxiosResolved ()"
    then show "fst (handleSendShare net s)
        = [ShareRequest (summary_id sm) (recipient s),
           Alert (''Summary shared successfully with '' @ recipient s)]"
      and "sharingSummary (snd (handleSendShare net s)) = None"
      and "recipient (snd (handleSendShare net s)) = []"
      using cleared by simp_all
  next
    assume bad: "recipient s \<noteq> [] \<and> sharingSummary s = Some sm \<and>
      net (summary_id sm) (recipient s) = AxiosRejected e"
    then show "fst (handleSendShare net s) = [ShareRequest (summary_id sm) (recipient s)]"
      and "sharingSummary (snd (handleSendShare net s)) = Some sm"
      and "recipient (snd (handleSendShare net s)) = recipient s"
      using kept by simp_all
    from bad show "errorMessage (snd (handleSendShare net s))
        = (case response e of
             None \<Rightarrow> None
           | Some resp \<Rightarrow>
               (case http_data resp of
                  Some (JObject members) \<Rightarrow> map_of members ''detail''
                | _ \<Rightarrow> None))"
      using shown [of e] by simp
  next
    assume "recipient s \<noteq> [] \<and> sharingSummary s = Some sm \<and>
      net (summary_id sm) (recipient s) = AxiosRejected e \<and>
      response e = Some resp \<and> http_data resp = Some (JObject members) \<and>
      map_of members ''detail'' = Some (JString server_text)"
    then show "errorMessage (snd (handleSendShare net s)) = Some (JString server_text)"
      using shown [of e] by simp
  next
    assume "recipient s \<noteq> [] \<and> sharingSummary s = Some sm \<and>
      net (summary_id sm) (recipient s) = AxiosRejected e \<and>
      response e = Some resp \<and> http_data resp = Some (JString body_text)"
    then show "errorMessage (snd (handleSendShare net s)) = None"
      using shown [of e] by simp
  next
    assume "recipient s \<noteq> [] \<and> sharingSummary s = Some sm \<and>
      net (summary_id sm) (recipient s) = AxiosRejected e \<and> response e = None"
    then show "errorMessage (snd (handleSendShare net s)) = None"
      using shown [of e] by simp
  qed
qed

theorem handleSendShare_outcome_witness:
  "recipient (loaded_state\<lparr>sharingSummary := Some python_code\<rparr>) = [] \<and>
   handleSendShare share_ok (loaded_state\<lparr>sharingSummary := Some python_code\<rparr>)
     = ([Alert ''Please enter a recipient email or username.''],
        loaded_state\<lparr>sharingSummary := Some python_code\<rparr>) \<and>
   share_ok (NumId 3) ''bob@example.com'' = AxiosResolved () \<and>
   sharingSummary (snd (handleSendShare share_ok sharing_state)) = None \<and>
   share_404 (NumId 3) ''bob@example.com'' = AxiosRejected not_found_404 \<and>
   sharingSummary (snd (handleSendShare share_404 sharing_state)) = Some python_code \<and>
   errorMessage (snd (handleSendShare share_404 sharing_state))
     = Some (JString ''Request refused'') \<and>
   share_404_text (NumId 3) ''bob@example.com'' = AxiosRejected not_found_404_text \<and>
   errorMessage (snd (handleSendShare share_404_text sharing_state)) = None \<and>
   share_offline (NumId 3) ''bob@example.com'' = AxiosRejected network_failure \<and>
   errorMessage (snd (handleSendShare share_offline sharing_state)) = None"
proof -
  let ?empty = "loaded_state\<lparr>sharingSummary := Some python_code\<rparr>"
  let ?members = "[(''detail'', JString ''Request refused'')]"
  let ?json = "\<lparr>http_status = 404, http_data = Some (JObject ?members)\<rparr>"
  let ?plain = "\<lparr>http_status = 404, http_data = Some (JString ''Recipient not found'')\<rparr>"
  have no_recipient: "recipient ?empty = []"
    by (simp add: loaded_state_def initial_state_def)
  have bob: "recipient sharing_state \<noteq> []" "sharingSummary sharing_state = Some python_code"
    by (simp_all add: sharing_state_def)
  have ok: "share_ok (NumId 3) ''bob@example.com'' = AxiosResolved ()"
    by (simp add: share_ok_def)
  have ok_bob: "share_ok (summary_id python_code) (recipient sharing_state) = AxiosResolved ()"
    by (simp add: share_ok_def)
  have bad: "share_404 (NumId 3) ''bob@example.com'' = AxiosRejected not_found_404"
    by (simp add: share_404_def)
  have bad_bob: "share_404 (summary_id python_code) (recipient sharing_state)
      = AxiosRejected not_found_404"
    by (simp add: share_404_def)
  have plain: "share_404_text (NumId 3) ''bob@example.com'' = AxiosRejected not_found_404_text"
    by (simp add: share_404_text_def)
  have plain_bob: "share_404_text (summary_id python_code) (recipient sharing_state)
      = AxiosRejected not_found_404_text"
    by (simp add: share_404_text_def)
  have offline: "share_offline (NumId 3) ''bob@example.com'' = AxiosRejected network_failure"
    by (simp add: share_offline_def)
  have offline_bob: "share_offline (summary_id python_code) (recipient sharing_state)
      = AxiosRejected network_failure"
    by (simp add: share_offline_def)
  have server: "response not_found_404 = Some ?json" "http_data ?json = Some (JObject ?members)"
    "map_of ?members ''detail'' = Some (JString ''Request refused'')"
    by (simp_all add: not_found_404_def)
  have server_text: "response not_found_404_text = Some ?plain"
    "http_data ?plain = Some (JString ''Recipient not found'')"
    by (simp_all add: not_found_404_text_def)
  have no_response: "response network_failure = None"
    by (simp add: network_failure_def)
  from handleSendShare_outcome [of ?empty share_ok] no_recipient
  have first: "handleSendShare share_ok ?empty
      = ([Alert ''Please enter a recipient email or username.''], ?empty)"
    by blast
  from handleSendShare_outcome [of sharing_state share_ok python_code] bob ok_bob
  have second: "sharingSummary (snd (handleSendShare share_ok sharing_state)) = None"
    by blast
  from handleSendShare_outcome
    [of sharing_state share_404 python_code not_found_404 ?json ?members "''Request refused''"]
    bob bad_bob server
  have third: "sharingSummary (snd (handleSendShare share_404 sharing_state)) = Some python_code"
    "errorMessage (snd (handleSendShare share_404 sharing_state))
       = Some (JString ''Request refused'')"
    by blast+
  from handleSendShare_outcome
    [of sharing_state share_404_text python_code not_found_404_text ?plain _ _
        "''Recipient not found''"]
    bob plain_bob server_text
  have fourth: "errorMessage (snd (handleSendShare share_404_text sharing_state)) = None"
    by blast
  from handleSendShare_outcome [of sharing_state share_offline python_code network_failure]
    bob offline_bob no_response
  have fifth: "errorMessage (snd (handleSendShare share_offline sharing_state)) = None"
    by blast
  from no_recipient first ok second bad third plain fourth offline fifth show ?thesis
    by (intro conjI)
qed

text \<open>
  C6 as stated fails on the code: the server answers the share request with the text
  \<open>Recipient not found\<close>, the gateway throws that text, and the dialog, which showed
  an earlier error, is left with no error text at all; the server's text is not
  surfaced.
\<close>

theorem handleSendShare_text_body_counterexample:
  "shareSummary (share_404_text (NumId 3) ''bob@example.com'')
     = Inl (JString ''Recipient not found'') \<and>
   errorMessage
     (snd (handleSendShare share_404_text
             (sharing_state\<lparr>errorMessage := Some (JString ''Request refused'')\<rparr>)))
     = None \<and>
   sharingSummary
     (snd (handleSendShare share_404_text
             (sharing_state\<lparr>errorMessage := Some (JString ''Request refused'')\<rparr>)))
     = Some python_code"
  by code_simp

section \<open>Startup verification: claim C4\<close>

text \<open>
  C4 (startup verification), as amended. \<open>verifyToken\<close> fails and logs out exactly when
  the token or the cached profile is missing or empty, or the token does not decode, or
  its expiry (seconds, times 1000) is strictly before the current time in milliseconds,
  or the cached profile does not parse. On failure the result is the logged-out state:
  \<open>isAuthenticated\<close> is false and both \<open>auth_token\<close> and \<open>user_data\<close> are gone from the
  store; otherwise \<open>isAuthenticated\<close> is true and the store is untouched. In particular
  a token whose expiry is in the past ends logged out with both entries cleared.
\<close>

theorem verifyToken_logout:
  "(startup_fails jwtDecode JSON_parse now s \<longrightarrow>
      verifyToken jwtDecode JSON_parse now net s = (logout s)\<lparr>auth_loading := False\<rparr> \<and>
      isAuthenticated (verifyToken jwtDecode JSON_parse now net s) = False \<and>
      localStorage (verifyToken jwtDecode JSON_parse now net s) ''auth_token'' = None \<and>
      localStorage (verifyToken jwtDecode JSON_parse now net s) ''user_data'' = None) \<and>
   (\<not> startup_fails jwtDecode JSON_parse now s \<longrightarrow>
      isAuthenticated (verifyToken jwtDecode JSON_parse now net s) = True \<and>
      localStorage (verifyToken jwtDecode JSON_parse now net s) = localStorage s) \<and>
   (localStorage s ''auth_token'' = Some token \<and> localStorage s ''user_data'' = Some profile \<and>
    jwtDecode token = Some d \<and> jwt_exp d = Some e \<and> e * 1000 < now \<longrightarrow>
      isAuthenticated (verifyToken jwtDecode JSON_parse now net s) = False \<and>
      localStorage (verifyToken jwtDecode JSON_parse now net s) ''auth_token'' = None \<and>
      localStorage (verifyToken jwtDecode JSON_parse now net s) ''user_data'' = None)"
proof -
  let ?v = "verifyToken jwtDecode JSON_parse now net s"
  have failing: "?v = (logout s)\<lparr>auth_loading := False\<rparr>"
    if "startup_fails jwtDecode JSON_parse now s"
  proof -
    from that obtain f where "verifyToken_checks jwtDecode JSON_parse now s = Inl f"
      using checks_fail_iff by blast
    then show ?thesis by (simp add: verifyToken_def)
  qed
  have passing: "isAuthenticated ?v = True \<and> localStorage ?v = localStorage s"
    if "\<not> startup_fails jwtDecode JSON_parse now s"
  proof -
    from that obtain u where "verifyToken_checks jwtDecode JSON_parse now s = Inr u"
      using checks_fail_iff [of jwtDecode JSON_parse now s]
      by (cases "verifyToken_checks jwtDecode JSON_parse now s") auto
    then show ?thesis by (simp add: verifyToken_def prefetch_keeps_session)
  qed
  have expired_token: "startup_fails jwtDecode JSON_parse now s"
    if "localStorage s ''auth_token'' = Some token" "localStorage s ''user_data'' = Some profile"
      "jwtDecode token = Some d" "jwt_exp d = Some e" "e * 1000 < now"
    using that by (simp add: startup_fails_def)
  have cleared: "isAuthenticated ((logout s)\<lparr>auth_loading := False\<rparr>) = False \<and>
      localStorage ((logout s)\<lparr>auth_loading := False\<rparr>) ''auth_token'' = None \<and>
      localStorage ((logout s)\<lparr>auth_loading := False\<rparr>) ''user_data'' = None"
    by (simp add: logout_def)
  from failing passing expired_token cleared show ?thesis by metis
qed

theorem verifyToken_logout_witness:
  "startup_fails decode_example parse_example 1700000000001 stored_session \<and>
   localStorage stored_session ''auth_token'' = Some ''header.payload.signature'' \<and>
   localStorage stored_session ''user_data'' = Some ''{id:7}'' \<and>
   decode_example ''header.payload.signature'' = Some \<lparr>jwt_exp = Some 1700000000\<rparr> \<and>
   (1700000000 :: int) * 1000 < 1700000000001 \<and>
   isAuthenticated
     (verifyToken decode_example parse_example 1700000000001 (net_ok []) stored_session)
     = False \<and>
   localStorage
     (verifyToken decode_example parse_example 1700000000001 (net_ok []) stored_session)
     ''auth_token'' = None \<and>
   localStorage
     (verifyToken decode_example parse_example 1700000000001 (net_ok []) stored_session)
     ''user_data'' = None \<and>
   \<not> startup_fails decode_example parse_example 1699999999999 stored_session \<and>
   isAuthenticated
     (verifyToken decode_example parse_example 1699999999999 (net_ok []) stored_session)
     = True"
proof -
  have late: "startup_fails decode_example parse_example 1700000000001 stored_session"
    by code_simp
  have early: "\<not> startup_fails decode_example parse_example 1699999999999 stored_session"
    by code_simp
  have stored: "localStorage stored_session ''auth_token'' = Some ''header.payload.signature''"
    "localStorage stored_session ''user_data'' = Some ''{id:7}''"
    by (simp_all add: stored_session_def)
  have decoded: "decode_example ''header.payload.signature'' = Some \<lparr>jwt_exp = Some 1700000000\<rparr>"
    by (simp add: decode_example_def)
  have before: "(1700000000 :: int) * 1000 < 1700000000001"
    by simp
  from late early stored decoded before
    verifyToken_logout [of decode_example parse_example 1700000000001 stored_session "net_ok []"
      "''header.payload.signature''" "''{id:7}''" "\<lparr>jwt_exp = Some 1700000000\<rparr>" 1700000000]
    verifyToken_logout [of decode_example parse_example 1699999999999 stored_session "net_ok []"
      "''header.payload.signature''" "''{id:7}''" "\<lparr>jwt_exp = Some 1700000000\<rparr>" 1700000000]
  show ?thesis by blast
qed

text \<open>
  C4 as stated fails on the code: at the very millisecond of the expiry, the expiry is
  at (so at or before) the current time, yet \<open>verifyToken\<close> does not log out; the user
  is authenticated and both stored entries stay.
\<close>

theorem verifyToken_expiry_boundary_counterexample:
  "startup_fails_at_or_before decode_example parse_example 1700000000000 stored_session \<and>
   isAuthenticated
     (verifyToken decode_example parse_example 1700000000000 (net_ok []) stored_session)
     = True \<and>
   localStorage
     (verifyToken decode_example parse_example 1700000000000 (net_ok []) stored_session)
     ''auth_token'' = Some ''header.payload.signature'' \<and>
   localStorage
     (verifyToken decode_example parse_example 1700000000000 (net_ok []) stored_session)
     ''user_data'' = Some ''{id:7}''"
  by code_simp

section \<open>Authorization failures: claim C5\<close>

text \<open>
  C5 (401 answers), as amended. Every gateway method, on any rejection, throws the data
  of the error response when the response has data and the data is truthy, and its own
  fixed message when there is no response, no data, or falsy data. The status code
  plays no part: two rejections with the same response data throw the same value
  whatever their status codes. No handler of the list component changes the session:
  \<open>fetchSummaries\<close>, \<open>fetchSharedSummaries\<close> and \<open>handleDeleteSummary\<close> answer every
  rejection with their one fixed message and keep their list, \<open>handleSummaryRegenerate\<close>
  changes nothing at all, and \<open>handleSendShare\<close> writes the list component only. At
  startup, \<open>verifyToken\<close> answers a rejected prefetch by emptying its summaries: the user
  stays authenticated and the store is untouched.
\<close>

theorem gateway_rejection_by_body:
  "(response e = None \<longrightarrow>
      (gateway m (AxiosRejected e) :: json + 'a) = Inl (JString (fallback_message m))) \<and>
   (response e = Some r \<and> http_data r = None \<longrightarrow>
      (gateway m (AxiosRejected e) :: json + 'a) = Inl (JString (fallback_message m))) \<and>
   (response e = Some r \<and> http_data r = Some d \<and> json_falsy d \<longrightarrow>
      (gateway m (AxiosRejected e) :: json + 'a) = Inl (JString (fallback_message m))) \<and>
   (response e = Some r \<and> http_data r = Some d \<and> \<not> json_falsy d \<longrightarrow>
      (gateway m (AxiosRejected e) :: json + 'a) = Inl d) \<and>
   (Option.bind (response e1) http_data = Option.bind (response e2) http_data \<longrightarrow>
      (gateway m (AxiosRejected e1) :: json + 'a) = gateway m (AxiosRejected e2)) \<and>
   session (app_fetchSummaries net a) = session a \<and>
   session (app_fetchSharedSummaries net a) = session a \<and>
   session (app_handleDeleteSummary delete_net i a) = session a \<and>
   session (app_handleSendShare share_net a) = session a \<and>
   session (app_handleSummaryRegenerate item_net sm a) = session a \<and>
   (userData (session a) = Some usr \<and> net (user_id usr) = AxiosRejected e \<longrightarrow>
      error (collection (app_fetchSummaries net a))
        = Some ''Failed to load summaries. Please try again later.'' \<and>
      summaries (collection (app_fetchSummaries net a)) = summaries (collection a)) \<and>
   (userData (session a) = Some usr \<and> net (user_id usr) = AxiosRejected e \<longrightarrow>
      error (collection (app_fetchSharedSummaries net a))
        = Some ''Failed to load shared summaries. Please try again later.'' \<and>
      sharedSummaries (collection (app_fetchSharedSummaries net a))
        = sharedSummaries (collection a)) \<and>
   (delete_net i = AxiosRejected e \<longrightarrow>
      error (collection (app_handleDeleteSummary delete_net i a))
        = Some ''Failed to delete summary. Please try again later.'' \<and>
      summaries (collection (app_handleDeleteSummary delete_net i a))
        = summaries (collection a)) \<and>
   (item_net (summary_id sm) = AxiosRejected e \<longrightarrow>
      app_handleSummaryRegenerate item_net sm a = a) \<and>
   (verifyToken_checks jwtDecode JSON_parse now st = Inr usr \<and>
    net (user_id usr) = AxiosRejected e \<longrightarrow>
      isAuthenticated (verifyToken jwtDecode JSON_parse now net st) = True \<and>
      localStorage (verifyToken jwtDecode JSON_parse now net st) = localStorage st \<and>
      auth_summaries (verifyToken jwtDecode JSON_parse now net st) = Items [])"
proof (intro conjI impI)
  assume "response e = None"
  then show "(gateway m (AxiosRejected e) :: json + 'a) = Inl (JString (fallback_message m))"
    by (simp add: gateway_rejected rethrow_def)
next
  assume "response e = Some r \<and> http_data r = None"
  then show "(gateway m (AxiosRejected e) :: json + 'a) = Inl (JString (fallback_message m))"
    by (simp add: gateway_rejected rethrow_def)
next
  assume "response e = Some r \<and> http_data r = Some d \<and> json_falsy d"
  then show "(gateway m (AxiosRejected e) :: json + 'a) = Inl (JString (fallback_message m))"
    by (simp add: gateway_rejected rethrow_def)
next
  assume "response e = Some r \<and> http_data r = Some d \<and> \<not> json_falsy d"
  then show "(gateway m (AxiosRejected e) :: json + 'a) = Inl d"
    by (simp add: gateway_rejected rethrow_def)
next
  assume "Option.bind (response e1) http_data = Option.bind (response e2) http_data"
  then have "rethrow (fallback_message m) e1 = rethrow (fallback_message m) e2"
    by (rule rethrow_by_data)
  then show "(gateway m (AxiosRejected e1) :: json + 'a) = gateway m (AxiosRejected e2)"
    by (simp only: gateway_rejected)
next
  show "session (app_fetchSummaries net a) = session a"
    by (simp add: app_fetchSummaries_def)
next
  show "session (app_fetchSharedSummaries net a) = session a"
    by (simp add: app_fetchSharedSummaries_def)
next
  show "session (app_handleDeleteSummary delete_net i a) = session a"
    by (simp add: app_handleDeleteSummary_def)
next
  show "session (app_handleSendShare share_net a) = session a"
    by (simp add: app_handleSendShare_def)
next
  show "session (app_handleSummaryRegenerate item_net sm a) = session a"
    by (simp add: app_handleSummaryRegenerate_def)
next
  assume "userData (session a) = Some usr \<and> net (user_id usr) = AxiosRejected e"
  then have settled: "collection (app_fetchSummaries net a)
      = fetchSummaries_settle (Inl (Rejected (rethrow ''Error fetching summaries'' e)))
          (fetch_begin (collection a))"
    by (simp add: app_fetchSummaries_def fetchSummaries_def await_rejected)
  show "error (collection (app_fetchSummaries net a))
      = Some ''Failed to load summaries. Please try again later.''"
    by (simp add: settled settle_caught)
  show "summaries (collection (app_fetchSummaries net a)) = summaries (collection a)"
    by (simp add: settled settle_caught fetch_begin_lists)
next
  assume "userData (session a) = Some usr \<and> net (user_id usr) = AxiosRejected e"
  then have settled: "collection (app_fetchSharedSummaries net a)
      = fetchSharedSummaries_settle
          (Inl (Rejected (rethrow ''Error fetching shared summaries'' e)))
          (fetch_begin (collection a))"
    by (simp add: app_fetchSharedSummaries_def fetchSharedSummaries_def await_shared_rejected)
  show "error (collection (app_fetchSharedSummaries net a))
      = Some ''Failed to load shared summaries. Please try again later.''"
    by (simp add: settled settle_shared_caught)
  show "sharedSummaries (collection (app_fetchSharedSummaries net a))
      = sharedSummaries (collection a)"
    by (simp add: settled settle_shared_caught fetch_begin_lists)
next
  assume rejected: "delete_net i = AxiosRejected e"
  then show "error (collection (app_handleDeleteSummary delete_net i a))
      = Some ''Failed to delete summary. Please try again later.''"
    by (simp add: app_handleDeleteSummary_def handleDeleteSummary_def
        handleDeleteSummary_settle_def deleteUserSummary_def gateway_rejected)
  from rejected
  show "summaries (collection (app_handleDeleteSummary delete_net i a))
      = summaries (collection a)"
    by (simp add: app_handleDeleteSummary_def handleDeleteSummary_def
        handleDeleteSummary_settle_def handleDeleteSummary_begin_def deleteUserSummary_def
        gateway_rejected)
next
  assume "item_net (summary_id sm) = AxiosRejected e"
  then show "app_handleSummaryRegenerate item_net sm a = a"
    by (simp add: app_handleSummaryRegenerate_def handleSummaryRegenerate_def
        getUserSummary_def gateway_rejected)
next
  assume "verifyToken_checks jwtDecode JSON_parse now st = Inr usr \<and>
    net (user_id usr) = AxiosRejected e"
  then have verified: "verifyToken jwtDecode JSON_parse now net st
      = (st\<lparr>userData := Some usr, isAuthenticated := True,
             auth_summaries := Items []\<rparr>)\<lparr>auth_loading := False\<rparr>"
    by (simp add: verifyToken_def prefetch_summaries_def getUserSummaries_def gateway_rejected)
  show "isAuthenticated (verifyToken jwtDecode JSON_parse now net st) = True"
    by (simp add: verified)
  show "localStorage (verifyToken jwtDecode JSON_parse now net st) = localStorage st"
    by (simp add: verified)
  show "auth_summaries (verifyToken jwtDecode JSON_parse now net st) = Items []"
    by (simp add: verified)
qed

theorem gateway_rejection_by_body_witness:
  "response network_failure = None \<and>
   (gateway ShareSummary (AxiosRejected network_failure) :: json + unit)
     = Inl (JString ''Error sharing summary'') \<and>
   response unauthorized_401_no_body = Some \<lparr>http_status = 401, http_data = None\<rparr> \<and>
   (gateway ShareSummary (AxiosRejected unauthorized_401_no_body) :: json + unit)
     = Inl (JString ''Error sharing summary'') \<and>
   json_falsy (JString []) \<and>
   (gateway ShareSummary (AxiosRejected unauthorized_401_empty_text) :: json + unit)
     = Inl (JString ''Error sharing summary'') \<and>
   (gateway ShareSummary (AxiosRejected unauthorized_401) :: json + unit)
     = Inl (JObject [(''detail'', JString ''Request refused'')]) \<and>
   Option.bind (response unauthorized_401) http_data
     = Option.bind (response not_found_404) http_data \<and>
   (gateway ShareSummary (AxiosRejected unauthorized_401) :: json + unit)
     = gateway ShareSummary (AxiosRejected not_found_404) \<and>
   userData (session logged_in_app) = Some alice \<and>
   net_401 (user_id alice) = AxiosRejected unauthorized_401 \<and>
   error (collection (app_fetchSummaries net_401 logged_in_app))
     = Some ''Failed to load summaries. Please try again later.'' \<and>
   error (collection (app_fetchSharedSummaries net_401 logged_in_app))
     = Some ''Failed to load shared summaries. Please try again later.'' \<and>
   delete_401 (NumId 2) = AxiosRejected unauthorized_401 \<and>
   error (collection (app_handleDeleteSummary delete_401 (NumId 2) logged_in_app))
     = Some ''Failed to delete summary. Please try again later.'' \<and>
   item_401 (summary_id python_code) = AxiosRejected unauthorized_401 \<and>
   app_handleSummaryRegenerate item_401 python_code logged_in_app = logged_in_app \<and>
   verifyToken_checks decode_example parse_example 1699999999999 stored_session = Inr alice \<and>
   isAuthenticated (verifyToken decode_example parse_example 1699999999999 net_401 stored_session)
     = True"
proof -
  let ?none = "\<lparr>http_status = 401, http_data = None\<rparr>"
  let ?empty = "\<lparr>http_status = 401, http_data = Some (JString [])\<rparr>"
  let ?data = "JObject [(''detail'', JString ''Request refused'')]"
  let ?json = "\<lparr>http_status = 401, http_data = Some ?data\<rparr>"
  have offline: "response network_failure = None"
    by (simp add: network_failure_def)
  have no_body: "response unauthorized_401_no_body = Some ?none" "http_data ?none = None"
    by (simp_all add: unauthorized_401_no_body_def)
  have empty: "response unauthorized_401_empty_text = Some ?empty"
    "http_data ?empty = Some (JString [])" "json_falsy (JString [])"
    by (simp_all add: unauthorized_401_empty_text_def)
  have data: "response unauthorized_401 = Some ?json" "http_data ?json = Some ?data"
    "\<not> json_falsy ?data"
    by (simp_all add: unauthorized_401_def)
  have same: "Option.bind (response unauthorized_401) http_data
      = Option.bind (response not_found_404) http_data"
    by (simp add: unauthorized_401_def not_found_404_def)
  have usr: "userData (session logged_in_app) = Some alice"
    by (simp add: logged_in_app_def)
  have net: "net_401 (user_id alice) = AxiosRejected unauthorized_401"
    by (simp add: net_401_def)
  have del: "delete_401 (NumId 2) = AxiosRejected unauthorized_401"
    by (simp add: delete_401_def)
  have item: "item_401 (summary_id python_code) = AxiosRejected unauthorized_401"
    by (simp add: item_401_def)
  have checks: "verifyToken_checks decode_example parse_example 1699999999999 stored_session
      = Inr alice"
    by code_simp
  have message: "fallback_message ShareSummary = ''Error sharing summary''"
    by simp
  note at_offline = gateway_rejection_by_body
    [where ?'a = unit and e = network_failure and m = ShareSummary]
  note at_no_body = gateway_rejection_by_body
    [where ?'a = unit and e = unauthorized_401_no_body and r = ?none and m = ShareSummary]
  note at_empty = gateway_rejection_by_body
    [where ?'a = unit and e = unauthorized_401_empty_text and r = ?empty and d = "JString []"
       and m = ShareSummary]
  note at_401 = gateway_rejection_by_body
    [where ?'a = unit and e = unauthorized_401 and r = ?json and d = ?data and m = ShareSummary
       and ?e1.0 = unauthorized_401 and ?e2.0 = not_found_404
       and net = net_401 and a = logged_in_app and usr = alice
       and delete_net = delete_401 and i = "NumId 2"
       and item_net = item_401 and sm = python_code
       and jwtDecode = decode_example and JSON_parse = parse_example
       and now = 1699999999999 and st = stored_session]
  from at_offline offline
  have first: "(gateway ShareSummary (AxiosRejected network_failure) :: json + unit)
      = Inl (JString ''Error sharing summary'')"
    unfolding message by blast
  from at_no_body no_body
  have second: "(gateway ShareSummary (AxiosRejected unauthorized_401_no_body) :: json + unit)
      = Inl (JString ''Error sharing summary'')"
    unfolding message by blast
  from at_empty empty
  have third: "(gateway ShareSummary (AxiosRejected unauthorized_401_empty_text) :: json + unit)
      = Inl (JString ''Error sharing summary'')"
    unfolding message by blast
  from at_401 data
  have fourth: "(gateway ShareSummary (AxiosRejected unauthorized_401) :: json + unit) = Inl ?data"
    by blast
  from at_401 same
  have fifth: "(gateway ShareSummary (AxiosRejected unauthorized_401) :: json + unit)
      = gateway ShareSummary (AxiosRejected not_found_404)"
    by blast
  from at_401 usr net
  have sixth: "error (collection (app_fetchSummaries net_401 logged_in_app))
      = Some ''Failed to load summaries. Please try again later.''"
    "error (collection (app_fetchSharedSummaries net_401 logged_in_app))
      = Some ''Failed to load shared summaries. Please try again later.''"
    by blast+
  from at_401 del
  have seventh: "error (collection (app_handleDeleteSummary delete_401 (NumId 2) logged_in_app))
      = Some ''Failed to delete summary. Please try again later.''"
    by blast
  from at_401 item
  have eighth: "app_handleSummaryRegenerate item_401 python_code logged_in_app = logged_in_app"
    by blast
  from at_401 checks net
  have ninth: "isAuthenticated
      (verifyToken decode_example parse_example 1699999999999 net_401 stored_session) = True"
    by blast
  from offline first no_body(1) second empty(3) third fourth same fifth usr net sixth del
    seventh item eighth checks ninth
  show ?thesis by (intro conjI)
qed

text \<open>
  C5 as stated fails on the code: on a 401 and on a 404 with the same body
  \<open>getUserSummaries\<close> throws the same value, the body; on a 401 without body and on a
  network failure it throws the same fixed message; and after \<open>fetchSummaries\<close> has met
  a 401 the user is still authenticated, the token is still stored, and the list
  component shows its generic message.
\<close>

theorem unauthorized_not_distinguished_counterexample:
  "getUserSummaries (AxiosRejected unauthorized_401)
     = Inl (JObject [(''detail'', JString ''Request refused'')]) \<and>
   getUserSummaries (AxiosRejected not_found_404)
     = Inl (JObject [(''detail'', JString ''Request refused'')]) \<and>
   getUserSummaries (AxiosRejected unauthorized_401_no_body)
     = Inl (JString ''Error fetching summaries'') \<and>
   getUserSummaries (AxiosRejected network_failure)
     = Inl (JString ''Error fetching summaries'') \<and>
   isAuthenticated (session logged_in_app) = True \<and>
   isAuthenticated (session (app_fetchSummaries net_401 logged_in_app)) = True \<and>
   localStorage (session (app_fetchSummaries net_401 logged_in_app)) ''auth_token''
     = Some ''header.payload.signature'' \<and>
   error (collection (app_fetchSummaries net_401 logged_in_app))
     = Some ''Failed to load summaries. Please try again later.''"
  by code_simp

end
